theory Spec2Isabelle
  imports Complex_Main
begin

section \<open>One-dimensional flow model of the sCO2 reactor (ht\_functions.py)\<close>

text \<open>
  The Python module computes with floats. Here a float is a real number: rounding,
  overflow, infinities and NaN are outside the model, and every equation below is an
  equation of exact real arithmetic. What the interpreter raises on finite inputs is
  kept: a division by zero, a logarithm or square root outside its domain, a missing
  dictionary key. One more outcome stops an evaluation: in Python 3 a negative float
  raised to a non-integral power is a complex number; the model has no complex values
  and ends there with \<open>NotReal\<close>.

  Names are those of the source, with three exceptions forced by the logic: the
  Reynolds number \<open>Re\<close> is written \<open>Rn\<close> as a variable and \<open>Re_num\<close>
  as a field (\<open>Re\<close> is the real part of a complex number), and one-letter
  attributes carry a suffix (\<open>L_len\<close>, \<open>v_flow\<close>, \<open>f_fric\<close>,
  \<open>c_clad\<close>, \<open>T_bulk\<close>).
\<close>

subsection \<open>Outcomes and the partial operations of Python arithmetic\<close>

datatype error = ZeroDivisionError | ValueError | KeyError | NotReal

type_synonym 'a res = "error + 'a"

text \<open>Sequencing: the first error ends the evaluation, as a raised exception does.\<close>

definition bnd :: "'a res \<Rightarrow> ('a \<Rightarrow> 'b res) \<Rightarrow> 'b res" where
  "bnd m k = (case m of Inl e \<Rightarrow> Inl e | Inr v \<Rightarrow> k v)"

text \<open>\<open>a / b\<close> on floats.\<close>

definition py_div :: "real \<Rightarrow> real \<Rightarrow> real res" where
  "py_div a b = (if b = 0 then Inl ZeroDivisionError else Inr (a / b))"

text \<open>\<open>math.log(x)\<close> and \<open>math.log(x, b)\<close>, the latter computed as
  \<open>log(x) / log(b)\<close>.\<close>

definition math_log :: "real \<Rightarrow> real res" where
  "math_log x = (if x \<le> 0 then Inl ValueError else Inr (ln x))"

definition math_log_base :: "real \<Rightarrow> real \<Rightarrow> real res" where
  "math_log_base x b =
     bnd (math_log x) (\<lambda>num. bnd (math_log b) (\<lambda>den. py_div num den))"

text \<open>\<open>math.sqrt(x)\<close>.\<close>

definition math_sqrt :: "real \<Rightarrow> real res" where
  "math_sqrt x = (if x < 0 then Inl ValueError else Inr (sqrt x))"

text \<open>\<open>x ** y\<close> with a float exponent.\<close>

definition py_pow :: "real \<Rightarrow> real \<Rightarrow> real res" where
  "py_pow x y =
     (if x = 0 then (if y < 0 then Inl ZeroDivisionError
                     else Inr (if y = 0 then 1 else 0))
      else if 0 < x then Inr (x powr y)
      else if y = of_int \<lfloor>y\<rfloor>
           then Inr (if 0 \<le> y then x ^ nat \<lfloor>y\<rfloor> else 1 / x ^ nat \<lfloor>- y\<rfloor>)
           else Inl NotReal)"

text \<open>\<open>x ** (-2)\<close>, the one negative integer exponent of the module.\<close>

definition py_pow_neg2 :: "real \<Rightarrow> real res" where
  "py_pow_neg2 x = (if x = 0 then Inl ZeroDivisionError else Inr (1 / x\<^sup>2))"

text \<open>\<open>math.pow(x, y)\<close>: a domain error where \<open>**\<close> would divide by zero or
  leave the reals.\<close>

definition math_pow :: "real \<Rightarrow> real \<Rightarrow> real res" where
  "math_pow x y =
     (case py_pow x y of Inl e \<Rightarrow> Inl ValueError | Inr v \<Rightarrow> Inr v)"

subsection \<open>Correlation library\<close>

text \<open>\<open>pipeflow_turbulent\<close>, lines 26 to 28: the smooth-tube friction factor of
  Li, Seem and Li, an explicit fit in \<open>ln Re\<close>.\<close>

definition f_fd_smooth :: "real \<Rightarrow> real res" where
  "f_fd_smooth Rn =
     bnd (math_log Rn) (\<lambda>l1. bnd (py_div (- 0.001570232) l1) (\<lambda>t1.
     bnd (math_log Rn) (\<lambda>l2. bnd (py_div 0.394203137 (l2\<^sup>2)) (\<lambda>t2.
     bnd (math_log Rn) (\<lambda>l3. bnd (py_div 2.534153311 (l3 ^ 3)) (\<lambda>t3.
     Inr ((t1 + t2 + t3) * 4)))))))"

text \<open>Lines 33 to 36: the friction factor for a rough tube, under the comment
  ``Offor and Alabi''. The outer logarithm is \<open>math.log\<close> with one argument (natural),
  the inner one \<open>math.log\<close> with base 10.\<close>

definition f_fd_rough :: "real \<Rightarrow> real \<Rightarrow> real res" where
  "f_fd_rough Rn relrough =
     bnd (py_div 1.975 Rn) (\<lambda>c.
     bnd (py_pow (relrough / 3.93) 1.092) (\<lambda>p.
     bnd (py_div 7.627 (Rn + 395.9)) (\<lambda>q.
     bnd (math_log_base (p + q) 10) (\<lambda>lg.
     bnd (math_log (relrough / 3.71 - c * lg)) (\<lambda>l.
     py_pow_neg2 (- 2 * l))))))"

text \<open>Line 39: the Nusselt number of Gnielinski.\<close>

definition Nusselt_Gnielinski :: "real \<Rightarrow> real \<Rightarrow> real \<Rightarrow> real res" where
  "Nusselt_Gnielinski f_fd Rn Pr =
     bnd (math_sqrt (f_fd / 8)) (\<lambda>s.
     bnd (py_pow Pr (2 / 3)) (\<lambda>p.
     py_div ((f_fd / 8) * (Rn - 1000) * Pr) (1 + 12.7 * s * (p - 1))))"

text \<open>Line 43: the low-Prandtl Nusselt number of Notter and Sleicher.\<close>

definition Nusselt_L_lp :: "real \<Rightarrow> real \<Rightarrow> real res" where
  "Nusselt_L_lp Rn Pr =
     bnd (py_pow Rn 0.85) (\<lambda>a.
     bnd (py_pow Pr 0.93) (\<lambda>b.
     Inr (4.8 + 0.0156 * a * b)))"

text \<open>Lines 50 and 51: the factor \<open>1 + (1/LD) ** 0.7\<close> for developing flow.\<close>

definition entrance :: "real \<Rightarrow> real res" where
  "entrance LD =
     bnd (py_div 1 LD) (\<lambda>r. bnd (py_pow r 0.7) (\<lambda>p. Inr (1 + p)))"

text \<open>\<open>pipeflow_turbulent(Re, Pr, LD, relrough)\<close> returns \<open>(Nusselt_L, f)\<close>.
  The smooth-tube value is computed before the roughness test, and the Gnielinski
  value before the Prandtl test, as in the source.\<close>

definition pipeflow_turbulent :: "real \<Rightarrow> real \<Rightarrow> real \<Rightarrow> real \<Rightarrow> (real \<times> real) res" where
  "pipeflow_turbulent Rn Pr LD relrough =
     bnd (f_fd_smooth Rn) (\<lambda>f_fd0.
     bnd (if relrough > 0.00001 then f_fd_rough Rn relrough else Inr f_fd0) (\<lambda>f_fd.
     bnd (Nusselt_Gnielinski f_fd Rn Pr) (\<lambda>Nusselt_G.
     bnd (if Pr < 0.5
          then bnd (Nusselt_L_lp Rn Pr) (\<lambda>lp.
                 if Pr < 0.1 then Inr lp
                 else Inr (lp + (Pr - 0.1) * (Nusselt_G - lp) / 0.4))
          else Inr Nusselt_G) (\<lambda>Nusselt_L.
     bnd (entrance LD) (\<lambda>e1.
     bnd (entrance LD) (\<lambda>e2.
     Inr (Nusselt_L * e2, f_fd * e1)))))))"

text \<open>\<open>pipeflow_laminar(Re, Pr, LD, relrough)\<close> returns
  \<open>(Nusselt_T, Nusselt_H, f)\<close>; \<open>relrough\<close> is not used, and \<open>Gm\<close> is
  computed and dropped.\<close>

definition pipeflow_laminar :: "real \<Rightarrow> real \<Rightarrow> real \<Rightarrow> real \<Rightarrow> (real \<times> real \<times> real) res" where
  "pipeflow_laminar Rn Pr LD relrough =
     bnd (py_div (Rn * Pr) LD) (\<lambda>Gz.
     bnd (py_div LD Rn) (\<lambda>x.
     bnd (math_sqrt x) (\<lambda>s1. bnd (py_div 3.44 s1) (\<lambda>a1.
     bnd (py_div 1.25 (4 * x)) (\<lambda>a2.
     bnd (math_sqrt x) (\<lambda>s2. bnd (py_div 3.44 s2) (\<lambda>a3.
     bnd (py_pow_neg2 x) (\<lambda>x2.
     bnd (py_div (a2 + 16 - a3) (1 + 0.00021 * x2)) (\<lambda>a4.
     let fR = a1 + a4 in
     bnd (py_div (4 * fR) Rn) (\<lambda>f.
     bnd (py_pow Gz (1 / 3)) (\<lambda>Gm.
     bnd (py_div 0.02 Pr) (\<lambda>b1.
     bnd (py_pow Gz 1.12) (\<lambda>b2.
     bnd (py_pow Gz 0.7) (\<lambda>b3.
     bnd (py_div ((0.049 + b1) * b2) (1 + 0.065 * b3)) (\<lambda>b4.
     let Nusselt_T = 3.66 + b4 in
     bnd (py_pow Pr 0.4) (\<lambda>c1.
     bnd (py_div 0.08569 c1) (\<lambda>c2.
     bnd (py_pow Gz 0.6) (\<lambda>c3.
     bnd (py_div ((0.1156 + c2) * Gz) (1 + 0.1158 * c3)) (\<lambda>c4.
     let Nusselt_H = 4.36 + c4 in
     Inr (Nusselt_T, Nusselt_H, f))))))))))))))))))))"

text \<open>\<open>pipeflow_nd(Re, Pr, LD, relrough)\<close>: turbulent above 3000, laminar below
  2300, and between them (both ends included) the blend of the turbulent values at
  3000 with the laminar values at 2300. The blend \<open>lam + w * (turb - lam)\<close> is
  computed here in exact arithmetic: with weight 1 it is \<open>turb\<close>, which on floats
  holds up to rounding only; with weight 0 it is \<open>lam\<close> on floats as well.\<close>

definition pipeflow_nd :: "real \<Rightarrow> real \<Rightarrow> real \<Rightarrow> real \<Rightarrow> (real \<times> real \<times> real) res" where
  "pipeflow_nd Rn Pr LD relrough =
     (if Rn > 3000 then
        bnd (pipeflow_turbulent Rn Pr LD relrough) (\<lambda>(Nusselt_T, f).
        Inr (Nusselt_T, Nusselt_T, f))
      else if Rn < 2300 then pipeflow_laminar Rn Pr LD relrough
      else
        bnd (pipeflow_turbulent 3000 Pr LD relrough) (\<lambda>(Nusselt_T, f).
        let Nusselt_H = Nusselt_T in
        bnd (pipeflow_laminar 2300 Pr LD relrough) (\<lambda>(Nusselt_lam_T, Nusselt_lam_H, f_lam).
        Inr (Nusselt_lam_T + (Rn - 2300) / (3000 - 2300) * (Nusselt_T - Nusselt_lam_T),
             Nusselt_lam_H + (Rn - 2300) / (3000 - 2300) * (Nusselt_H - Nusselt_lam_H),
             f_lam + (Rn - 2300) / (3000 - 2300) * (f - f_lam)))))"

subsection \<open>The Flow object\<close>

text \<open>The flow-property object \<open>fps\<close> (class \<open>FlowProperties\<close> of the module
  \<open>physical_properties\<close>): the attributes this module reads.\<close>

record flow_props =
  m_dot :: real
  rho :: real
  mu :: real
  Pr :: real
  k_cool :: real
  T_bulk :: real
  dp_limit :: real

text \<open>An entry of the table \<open>phys_props\<close> is a dictionary from property names to
  values; \<open>d[k]\<close> raises \<open>KeyError\<close> when \<open>k\<close> is missing.\<close>

type_synonym props = "string \<rightharpoonup> real"

definition getitem :: "('k \<rightharpoonup> 'v) \<Rightarrow> 'k \<Rightarrow> 'v res" where
  "getitem d k = (case d k of None \<Rightarrow> Inl KeyError | Some v \<Rightarrow> Inr v)"

text \<open>The attributes of a \<open>Flow\<close> instance that the methods read or write.\<close>

record flow =
  Q_therm :: real
  fuel :: string
  coolant :: string
  fuelprops :: props
  reflprops :: props
  cladprops :: props
  AR :: real
  c_clad :: real
  r_channel :: real
  fps :: flow_props
  dT :: real
  fuel_frac :: real
  core_r :: real
  A_core :: real
  A_flow :: real
  A_fuel :: real
  L_len :: real
  LD :: real
  vol_fuel :: real
  vol_cool :: real
  N_channels :: real
  radius_cond :: real
  XS_A_cond :: real
  D_e :: real
  rough :: real
  relrough :: real
  v_flow :: real
  Re_num :: real
  Nu :: real
  f_fric :: real
  h_bar :: real
  R_cond :: real
  R_conv :: real
  gen_Q :: real
  dp :: real
  mass :: real

text \<open>\<open>Flow.set_geom\<close>, lines 260 to 274.\<close>

definition set_geom :: "flow \<Rightarrow> flow res" where
  "set_geom s0 =
     (let s = s0\<lparr>A_core := (core_r s0)\<^sup>2 * pi\<rparr>;
          s = s\<lparr>A_flow := A_core s * (1 - fuel_frac s)\<rparr>;
          s = s\<lparr>A_fuel := A_core s * fuel_frac s\<rparr>;
          s = s\<lparr>L_len := AR s * core_r s\<rparr> in
      bnd (py_div (L_len s) (r_channel s * 2)) (\<lambda>ld.
      let s = s\<lparr>LD := ld\<rparr>;
          s = s\<lparr>vol_fuel := A_fuel s * L_len s\<rparr>;
          s = s\<lparr>vol_cool := A_flow s * L_len s\<rparr> in
      bnd (py_div (A_flow s) ((r_channel s)\<^sup>2 * pi)) (\<lambda>n.
      let s = s\<lparr>N_channels := n\<rparr> in
      bnd (py_div (A_fuel s) (N_channels s)) (\<lambda>q.
      bnd (math_sqrt q) (\<lambda>sq.
      let s = s\<lparr>radius_cond := sq / 2\<rparr>;
          s = s\<lparr>XS_A_cond := pi * r_channel s * L_len s * 2 * N_channels s\<rparr>;
          s = s\<lparr>D_e := 2.0 * r_channel s\<rparr>
      in Inr s)))))"

text \<open>\<open>Flow.characterize_flow\<close>, lines 290 to 302. \<open>N_channels\<close> is not read.\<close>

definition characterize_flow :: "flow \<Rightarrow> flow res" where
  "characterize_flow s0 =
     bnd (getitem (cladprops s0) ''rough'') (\<lambda>r.
     let s = s0\<lparr>rough := r\<rparr> in
     bnd (py_div (rough s) (r_channel s * 2)) (\<lambda>rr.
     let s = s\<lparr>relrough := rr\<rparr> in
     bnd (py_div (m_dot (fps s)) (A_flow s)) (\<lambda>G_dot.
     bnd (py_div G_dot (rho (fps s))) (\<lambda>v.
     let s = s\<lparr>v_flow := v\<rparr> in
     bnd (py_div (rho (fps s) * v_flow s * D_e s) (mu (fps s))) (\<lambda>re.
     let s = s\<lparr>Re_num := re\<rparr> in
     bnd (pipeflow_nd (Re_num s) (Pr (fps s)) (LD s) (relrough s)) (\<lambda>(nu, Nu_H, f).
     let s = s\<lparr>Nu := nu, f_fric := f\<rparr> in
     bnd (py_div (Nu s * k_cool (fps s)) (D_e s)) (\<lambda>h.
     Inr (s\<lparr>h_bar := h\<rparr>))))))))"

text \<open>\<open>Flow.get_q_per_channel\<close>, lines 325 to 332.\<close>

definition get_q_per_channel :: "flow \<Rightarrow> flow res" where
  "get_q_per_channel s0 =
     bnd (getitem (fuelprops s0) ''k_fuel'') (\<lambda>k.
     bnd (py_div (radius_cond s0) (k * XS_A_cond s0)) (\<lambda>rc.
     let s = s0\<lparr>R_cond := rc\<rparr> in
     bnd (py_div 1 (h_bar s * r_channel s * 2 * pi * L_len s * N_channels s)) (\<lambda>rv.
     let s = s\<lparr>R_conv := rv\<rparr> in
     bnd (py_div (dT s) (R_cond s + R_conv s)) (\<lambda>q_trip_max.
     bnd (py_div (q_trip_max * 2) pi) (\<lambda>g.
     Inr (s\<lparr>gen_Q := g\<rparr>))))))"

text \<open>\<open>Flow.calc_dp\<close>, lines 343 and 344.\<close>

definition calc_dp :: "flow \<Rightarrow> flow res" where
  "calc_dp s =
     bnd (py_div (f_fric s * L_len s * rho (fps s) * v_flow s * v_flow s) (2 * D_e s)) (\<lambda>d.
     Inr (s\<lparr>dp := d\<rparr>))"

text \<open>\<open>Flow.get_dp_constrained_Nchannels\<close>, lines 378 to 383; \<open>math.ceil\<close>
  returns an integer.\<close>

definition get_dp_constrained_Nchannels :: "flow \<Rightarrow> int res" where
  "get_dp_constrained_Nchannels s =
     bnd (py_div (2 * D_e s * dp_limit (fps s)) (f_fric s * L_len s * rho (fps s))) (\<lambda>q.
     bnd (math_sqrt q) (\<lambda>v_req.
     bnd (py_div (m_dot (fps s)) (A_flow s * rho (fps s) * v_req)) (\<lambda>n.
     Inr \<lceil>n\<rceil>)))"

text \<open>\<open>Flow.adjust_dp\<close>, lines 359 to 364. The \<open>while\<close> loop has no bound in the
  source: the model's value is \<open>None\<close> when it runs forever, \<open>Some (Inl e)\<close> when
  an exception \<open>e\<close> leaves it, and \<open>Some (Inr s)\<close> when it exits with state
  \<open>s\<close>.\<close>

partial_function (option) adjust_dp_loop :: "flow \<Rightarrow> (flow res) option" where
  "adjust_dp_loop s =
     (if dp s > dp_limit (fps s) then
        (case get_dp_constrained_Nchannels s of
           Inl e \<Rightarrow> Some (Inl e)
         | Inr n \<Rightarrow>
             (case characterize_flow (s\<lparr>N_channels := of_int n\<rparr>) of
                Inl e \<Rightarrow> Some (Inl e)
              | Inr s1 \<Rightarrow>
                  (case calc_dp s1 of
                     Inl e \<Rightarrow> Some (Inl e)
                   | Inr s2 \<Rightarrow> adjust_dp_loop s2)))
      else Some (Inr s))"

definition adjust_dp :: "flow \<Rightarrow> (flow res) option" where
  "adjust_dp s =
     (case calc_dp s of Inl e \<Rightarrow> Some (Inl e) | Inr s1 \<Rightarrow> adjust_dp_loop s1)"

text \<open>\<open>Flow.constrain_radius\<close>, lines 425 to 436.\<close>

definition coeffs :: "string \<rightharpoonup> (string \<rightharpoonup> real \<times> real)" where
  "coeffs =
     [''UO2'' \<mapsto> [''CO2'' \<mapsto> (0.16271, - 0.8515), ''H2O'' \<mapsto> (0.1706, - 0.61361)],
      ''UW'' \<mapsto> [''CO2'' \<mapsto> (0.15385, - 0.8309), ''H2O'' \<mapsto> (0.16270, - 0.6487)]]"

definition constrain_radius :: "flow \<Rightarrow> flow res" where
  "constrain_radius s =
     bnd (getitem coeffs (fuel s)) (\<lambda>d0. bnd (getitem d0 (coolant s)) (\<lambda>ab0.
     bnd (getitem coeffs (fuel s)) (\<lambda>d1. bnd (getitem d1 (coolant s)) (\<lambda>ab1.
     bnd (math_pow (fuel_frac s) (snd ab1)) (\<lambda>p.
     Inr (s\<lparr>core_r := fst ab0 * p\<rparr>))))))"

text \<open>\<open>Flow.compute_Q_from_guess\<close>, lines 398 to 404: the squared error and the
  state it leaves.\<close>

definition compute_Q_from_guess :: "flow \<Rightarrow> real \<Rightarrow> (real \<times> flow) res" where
  "compute_Q_from_guess s0 inp_guess =
     (let s = s0\<lparr>fuel_frac := inp_guess\<rparr> in
      bnd (constrain_radius s) (\<lambda>s.
      bnd (set_geom s) (\<lambda>s.
      bnd (characterize_flow s) (\<lambda>s.
      bnd (get_q_per_channel s) (\<lambda>s.
      Inr ((gen_Q s - Q_therm s)\<^sup>2, s))))))"

text \<open>\<open>Flow.calc_reactor_mass\<close>, lines 414 to 419.\<close>

definition calc_reactor_mass :: "flow \<Rightarrow> flow res" where
  "calc_reactor_mass s =
     bnd (getitem (fuelprops s) ''rho_fuel'') (\<lambda>rf.
     let fuel_mass = vol_fuel s * rf;
         cool_mass = vol_cool s * rho (fps s) in
     bnd (getitem (reflprops s) ''rho'') (\<lambda>rr.
     let refl_mass = ((core_r s * 1.05)\<^sup>2 - (core_r s)\<^sup>2) * L_len s * rr in
     Inr (s\<lparr>mass := fuel_mass + cool_mass + refl_mass\<rparr>)))"

text \<open>\<open>Flow.__init__\<close>, lines 237 to 249, with the class attributes of lines 201 to
  225 (\<open>fuel_frac = 0.75\<close>, \<open>core_r = 1\<close>, the others 0). The table
  \<open>phys_props\<close> of the module \<open>physical_properties\<close> is a parameter. An attribute
  that no statement has set yet is 0 in the record (every method writes it before it
  reads it), and \<open>fps\<close>, assigned after \<open>set_geom\<close> and not read by it, is in the
  record from the start.\<close>

definition Flow_init ::
  "(string \<rightharpoonup> props) \<Rightarrow> real \<Rightarrow> real \<Rightarrow> real \<Rightarrow> real \<Rightarrow> string \<Rightarrow> string \<Rightarrow> flow_props
     \<Rightarrow> flow res" where
  "Flow_init phys_props cool_r c aspect pwr fuel_key cool flowprops =
     bnd (getitem phys_props fuel_key) (\<lambda>fp.
     bnd (getitem phys_props ''Carbon'') (\<lambda>rp.
     bnd (getitem phys_props ''Inconel-718'') (\<lambda>cp.
     bnd (set_geom
            \<lparr>Q_therm = pwr, fuel = fuel_key, coolant = cool, fuelprops = fp,
             reflprops = rp, cladprops = cp, AR = aspect, c_clad = c, r_channel = cool_r,
             fps = flowprops, dT = 0, fuel_frac = 0.75, core_r = 1, A_core = 0,
             A_flow = 0, A_fuel = 0, L_len = 0, LD = 0, vol_fuel = 0, vol_cool = 0,
             N_channels = 0, radius_cond = 0, XS_A_cond = 0, D_e = 0, rough = 0,
             relrough = 0, v_flow = 0, Re_num = 0, Nu = 0, f_fric = 0, h_bar = 0,
             R_cond = 0, R_conv = 0, gen_Q = 0, dp = 0, mass = 0\<rparr>) (\<lambda>s.
     bnd (getitem (fuelprops s) ''T_center'') (\<lambda>tc.
     Inr (s\<lparr>dT := tc - T_bulk (fps s)\<rparr>))))))"

subsection \<open>The design run\<close>

text \<open>\<open>_calc_n_channels_error(guess, flowiteration)\<close>, line 159.\<close>

definition calc_n_channels_error :: "real \<Rightarrow> flow \<Rightarrow> (real \<times> flow) res" where
  "calc_n_channels_error guess flowiteration = compute_Q_from_guess flowiteration guess"

text \<open>\<open>minimize_scalar\<close> belongs to scipy, not to this repository. A run of it is
  taken as given: the points at which it evaluates the objective, in order, and the
  flag \<open>success\<close> of the result object it returns (false when the tolerance was not
  reached). Each evaluation mutates the one Flow object; an exception of the
  objective leaves the minimizer.\<close>

record minimizer_run =
  trials :: "real list"
  success :: bool

fun evaluate :: "real list \<Rightarrow> flow \<Rightarrow> flow res" where
  "evaluate [] flow = Inr flow"
| "evaluate (x # xs) flow =
     bnd (calc_n_channels_error x flow) (\<lambda>(err, flow'). evaluate xs flow')"

text \<open>\<open>find_n_channels(flow)\<close>, lines 176 and 177: the result object \<open>res\<close> is
  assigned and never read.\<close>

definition find_n_channels :: "minimizer_run \<Rightarrow> flow \<Rightarrow> flow res" where
  "find_n_channels run flow = evaluate (trials run) flow"

text \<open>\<open>oned_flow_modeling(analyze_flow)\<close>, lines 140 to 142.\<close>

definition oned_flow_modeling :: "minimizer_run \<Rightarrow> flow \<Rightarrow> (flow res) option" where
  "oned_flow_modeling run analyze_flow =
     (case find_n_channels run analyze_flow of
        Inl e \<Rightarrow> Some (Inl e)
      | Inr s \<Rightarrow>
          (case adjust_dp s of
             None \<Rightarrow> None
           | Some (Inl e) \<Rightarrow> Some (Inl e)
           | Some (Inr s1) \<Rightarrow> Some (calc_reactor_mass s1)))"

subsection \<open>Notions used in the statements\<close>

text \<open>\<open>x\<close> lies between \<open>a\<close> and \<open>b\<close>, ends included, in either order.\<close>

definition between :: "real \<Rightarrow> real \<Rightarrow> real \<Rightarrow> bool" where
  "between a b x = (min a b \<le> x \<and> x \<le> max a b)"

text \<open>The value of \<open>f_fd_smooth\<close> as a function of \<open>l = ln Re\<close>, where no
  operation raises.\<close>

definition smooth_fit :: "real \<Rightarrow> real" where
  "smooth_fit l = (- 0.001570232 / l + 0.394203137 / l\<^sup>2 + 2.534153311 / l ^ 3) * 4"

text \<open>The values of \<open>pipeflow_turbulent\<close> as closed formulas, where no operation
  raises. \<open>rough_fit\<close> is the rough-tube friction factor as lines 33 to 36 compute
  it: the natural logarithm of \<open>rough_arg\<close>, which holds the decimal logarithm.
  Then the Gnielinski and the Notter and Sleicher Nusselt numbers, and the entrance
  factor.\<close>

definition rough_arg :: "real \<Rightarrow> real \<Rightarrow> real" where
  "rough_arg Rn rr =
     rr / 3.71 - 1.975 / Rn * (ln ((rr / 3.93) powr 1.092 + 7.627 / (Rn + 395.9)) / ln 10)"

definition rough_fit :: "real \<Rightarrow> real \<Rightarrow> real" where
  "rough_fit Rn rr = 1 / (- 2 * ln (rough_arg Rn rr))\<^sup>2"

text \<open>The friction factor of Offor and Alabi as published (Advances in Chemical
  Engineering and Science 6, 2016, the reference in the comment of the source):
  \<open>1 / sqrt f = - 2 log10 (rr / 3.71 - 1.975 / Re ln ((rr / 3.93) ** 1.092
  + 7.627 / (Re + 395.9)))\<close>, the decimal logarithm of an argument that holds the
  natural logarithm. It stands for the correlation the specification names; no
  definition of the source is translated from it.\<close>

definition Offor_Alabi :: "real \<Rightarrow> real \<Rightarrow> real" where
  "Offor_Alabi Rn rr =
     1 / (- 2 * log 10 (rr / 3.71
                        - 1.975 / Rn * ln ((rr / 3.93) powr 1.092 + 7.627 / (Rn + 395.9))))\<^sup>2"

text \<open>A Prandtl number, about 0.269, at which the denominator
  \<open>1 + 12.7 sqrt (f / 8) (Pr ** (2/3) - 1)\<close> of the Gnielinski value is zero when
  \<open>f\<close> is the rough-tube friction factor at \<open>Re = 3000\<close> and relative
  roughness 1.\<close>

definition Pr_singular :: real where
  "Pr_singular = (1 - 1 / (12.7 * sqrt (rough_fit 3000 1 / 8))) powr (3 / 2)"

definition Gnielinski :: "real \<Rightarrow> real \<Rightarrow> real \<Rightarrow> real" where
  "Gnielinski f_fd Rn pr =
     (f_fd / 8) * (Rn - 1000) * pr / (1 + 12.7 * sqrt (f_fd / 8) * (pr powr (2 / 3) - 1))"

definition Notter_Sleicher :: "real \<Rightarrow> real \<Rightarrow> real" where
  "Notter_Sleicher Rn pr = 4.8 + 0.0156 * Rn powr 0.85 * pr powr 0.93"

definition entrance_factor :: "real \<Rightarrow> real" where
  "entrance_factor ld = 1 + (1 / ld) powr 0.7"

text \<open>The state \<open>set_geom\<close> leaves, where no operation raises, in the words of the
  specification: core area \<open>\<pi> r_core\<^sup>2\<close>, flow area \<open>(1 - fuel_frac) A_core\<close>, fuel
  area \<open>fuel_frac A_core\<close>, length \<open>AR r_core\<close>, the ratio \<open>L / D\<close>, the two
  volumes, channel count \<open>A_flow / (\<pi> r_channel\<^sup>2)\<close>, conduction radius
  \<open>sqrt (A_fuel / N_channels) / 2\<close>, conduction surface \<open>2 \<pi> r_channel L N_channels\<close>
  and hydraulic diameter \<open>2 r_channel\<close>.\<close>

definition geom_of :: "flow \<Rightarrow> flow" where
  "geom_of s =
     (let Ac = (core_r s)\<^sup>2 * pi;
          Af = Ac * (1 - fuel_frac s);
          Au = Ac * fuel_frac s;
          l = AR s * core_r s;
          n = Af / ((r_channel s)\<^sup>2 * pi)
      in s\<lparr>A_core := Ac, A_flow := Af, A_fuel := Au, L_len := l,
            LD := l / (r_channel s * 2), vol_fuel := Au * l, vol_cool := Af * l,
            N_channels := n, radius_cond := sqrt (Au / n) / 2,
            XS_A_cond := pi * r_channel s * l * 2 * n, D_e := 2 * r_channel s\<rparr>)"


text \<open>The six results of \<open>characterize_flow\<close> followed by \<open>calc_dp\<close>.\<close>

definition flow_outputs :: "flow \<Rightarrow> real \<times> real \<times> real \<times> real \<times> real \<times> real" where
  "flow_outputs s = (v_flow s, Re_num s, f_fric s, Nu s, h_bar s, dp s)"

definition characterize_and_dp :: "flow \<Rightarrow> (real \<times> real \<times> real \<times> real \<times> real \<times> real) res" where
  "characterize_and_dp s =
     bnd (characterize_flow s) (\<lambda>s1. bnd (calc_dp s1) (\<lambda>s2. Inr (flow_outputs s2)))"

text \<open>How a run of \<open>oned_flow_modeling\<close> ends: it returns (the state is final), an
  exception leaves it, or it never ends.\<close>

definition returns :: "(flow res) option \<Rightarrow> bool" where
  "returns r = (case r of Some (Inr s) \<Rightarrow> True | _ \<Rightarrow> False)"

subsection \<open>An example design\<close>

text \<open>A Flow object as the constructor leaves it: fuel UW, coolant CO2, cladding
  0.31 mm, aspect ratio 1, 100 kW, with the channel radius, the mass flow rate and
  the pressure-drop limit as parameters. The property values stand for the entries of
  \<open>phys_props\<close> and the attributes of \<open>FlowProperties\<close>, which are not among the
  sources.\<close>

definition ex_phys_props :: "string \<rightharpoonup> props" where
  "ex_phys_props =
     [''UW'' \<mapsto> [''T_center'' \<mapsto> 1847.5, ''k_fuel'' \<mapsto> 51, ''rho_fuel'' \<mapsto> 12500],
      ''Carbon'' \<mapsto> [''rho'' \<mapsto> 1700],
      ''Inconel-718'' \<mapsto> [''rough'' \<mapsto> 0.0000015, ''rho'' \<mapsto> 8190]]"

definition ex_fps :: "real \<Rightarrow> real \<Rightarrow> flow_props" where
  "ex_fps md dpl =
     \<lparr>m_dot = md, rho = 100, mu = 0.00004, Pr = 0.75, k_cool = 0.07, T_bulk = 950,
      dp_limit = dpl\<rparr>"

definition ex_flow :: "real \<Rightarrow> real \<Rightarrow> real \<Rightarrow> flow res" where
  "ex_flow r md dpl =
     Flow_init ex_phys_props r 0.00031 1 100000 ''UW'' ''CO2'' (ex_fps md dpl)"

text \<open>The same object written out: the attributes before \<open>set_geom\<close>, and the
  state after the constructor.\<close>

definition ex_base :: "real \<Rightarrow> real \<Rightarrow> real \<Rightarrow> flow" where
  "ex_base r md dpl =
     \<lparr>Q_therm = 100000, fuel = ''UW'', coolant = ''CO2'',
      fuelprops = [''T_center'' \<mapsto> 1847.5, ''k_fuel'' \<mapsto> 51, ''rho_fuel'' \<mapsto> 12500],
      reflprops = [''rho'' \<mapsto> 1700],
      cladprops = [''rough'' \<mapsto> 0.0000015, ''rho'' \<mapsto> 8190],
      AR = 1, c_clad = 0.00031, r_channel = r, fps = ex_fps md dpl, dT = 0,
      fuel_frac = 0.75, core_r = 1, A_core = 0, A_flow = 0, A_fuel = 0, L_len = 0,
      LD = 0, vol_fuel = 0, vol_cool = 0, N_channels = 0, radius_cond = 0,
      XS_A_cond = 0, D_e = 0, rough = 0, relrough = 0, v_flow = 0, Re_num = 0, Nu = 0,
      f_fric = 0, h_bar = 0, R_cond = 0, R_conv = 0, gen_Q = 0, dp = 0, mass = 0\<rparr>"

definition ex_state :: "real \<Rightarrow> real \<Rightarrow> real \<Rightarrow> flow" where
  "ex_state r md dpl = (geom_of (ex_base r md dpl))\<lparr>dT := 1847.5 - 950\<rparr>"

text \<open>The seven values \<open>characterize_flow\<close> computes, as a function of the
  attributes it reads: roughness, relative roughness, velocity, Reynolds number,
  Nusselt number, friction factor and heat-transfer coefficient.\<close>

definition flow_values ::
  "flow \<Rightarrow> (real \<times> real \<times> real \<times> real \<times> real \<times> real \<times> real) res" where
  "flow_values s =
     bnd (getitem (cladprops s) ''rough'') (\<lambda>r.
     bnd (py_div r (r_channel s * 2)) (\<lambda>rr.
     bnd (py_div (m_dot (fps s)) (A_flow s)) (\<lambda>G_dot.
     bnd (py_div G_dot (rho (fps s))) (\<lambda>v.
     bnd (py_div (rho (fps s) * v * D_e s) (mu (fps s))) (\<lambda>re.
     bnd (pipeflow_nd re (Pr (fps s)) (LD s) rr) (\<lambda>(nu, Nu_H, f).
     bnd (py_div (nu * k_cool (fps s)) (D_e s)) (\<lambda>h.
     Inr (r, rr, v, re, nu, f, h))))))))"

definition with_flow_values ::
  "flow \<Rightarrow> real \<times> real \<times> real \<times> real \<times> real \<times> real \<times> real \<Rightarrow> flow" where
  "with_flow_values s = (\<lambda>(r, rr, v, re, nu, f, h).
     s\<lparr>rough := r, relrough := rr, v_flow := v, Re_num := re, Nu := nu, f_fric := f,
       h_bar := h\<rparr>)"

text \<open>A state is characterized when \<open>characterize_flow\<close> has been run on it and the
  attributes that method reads have not changed since: running it again changes
  nothing.\<close>

definition characterized :: "flow \<Rightarrow> bool" where
  "characterized s = (characterize_flow s = Inr s)"

text \<open>The pressure limit is exceeded in a characterized state whose \<open>dp\<close> is the one
  \<open>calc_dp\<close> computes.\<close>

definition dp_exceeded :: "flow \<Rightarrow> bool" where
  "dp_exceeded s = (characterized s \<and> calc_dp s = Inr s \<and> dp s > dp_limit (fps s))"

text \<open>The apparent friction factor \<open>fR\<close> of \<open>pipeflow_laminar\<close> as a function of
  \<open>x = LD / Re\<close>, and the core radius of the example after a trial at fuel fraction
  one half.\<close>

definition lam_fR :: "real \<Rightarrow> real" where
  "lam_fR x =
     3.44 / sqrt x + (1.25 / (4 * x) + 16 - 3.44 / sqrt x) / (1 + 0.00021 * (1 / x\<^sup>2))"

definition ex_core_r :: real where
  "ex_core_r = 0.15385 * (1 / 2) powr (- 0.8309)"
section \<open>Properties\<close>

subsection \<open>Evaluation of the partial operations\<close>

lemma bnd_Inl [simp]: "bnd (Inl e) k = Inl e"
  by (simp add: bnd_def)

lemma bnd_Inr [simp]: "bnd (Inr v) k = k v"
  by (simp add: bnd_def)

lemma bnd_eq_Inr: "bnd m k = Inr y \<longleftrightarrow> (\<exists>v. m = Inr v \<and> k v = Inr y)"
  by (cases m) simp_all

lemma py_div_ok [simp]: "b \<noteq> 0 \<Longrightarrow> py_div a b = Inr (a / b)"
  by (simp add: py_div_def)

lemma math_sqrt_ok [simp]: "0 \<le> x \<Longrightarrow> math_sqrt x = Inr (sqrt x)"
  by (simp add: math_sqrt_def)

lemma math_log_ok [simp]: "0 < x \<Longrightarrow> math_log x = Inr (ln x)"
  by (simp add: math_log_def)

lemma py_pow_pos [simp]: "0 < x \<Longrightarrow> py_pow x y = Inr (x powr y)"
  by (simp add: py_pow_def)

lemma py_pow_neg2_ok [simp]: "x \<noteq> 0 \<Longrightarrow> py_pow_neg2 x = Inr (1 / x\<^sup>2)"
  by (simp add: py_pow_neg2_def)

lemma one_plus_nonneg: "0 \<le> a \<Longrightarrow> 0 \<le> y \<Longrightarrow> 1 + a * y \<noteq> (0::real)"
proof -
  assume "0 \<le> a" "0 \<le> y"
  then have "0 \<le> a * y" by (rule mult_nonneg_nonneg)
  then show ?thesis by linarith
qed

lemma pipeflow_laminar_returns:
  assumes "0 < Rn" "0 < pr" "0 < ld"
  shows "\<exists>t. pipeflow_laminar Rn pr ld rr = Inr t"
proof -
  have x: "0 < ld / Rn" and Gz: "0 < Rn * pr / ld"
    using assms by simp_all
  have d1: "1 + 0.00021 * (1 / (ld / Rn)\<^sup>2) \<noteq> 0"
    by (rule one_plus_nonneg) simp_all
  have d2: "1 + 0.065 * (Rn * pr / ld) powr 0.7 \<noteq> 0"
    by (rule one_plus_nonneg) simp_all
  have d3: "1 + 0.1158 * (Rn * pr / ld) powr 0.6 \<noteq> 0"
    by (rule one_plus_nonneg) simp_all
  have s: "sqrt (ld / Rn) \<noteq> 0" using assms by simp
  show ?thesis
    unfolding pipeflow_laminar_def Let_def
    using assms x Gz d1 d2 d3 s by (simp del: real_sqrt_eq_zero_cancel_iff)
qed

subsection \<open>The smooth-tube friction factor\<close>

lemma f_fd_smooth_val: "1 < Rn \<Longrightarrow> f_fd_smooth Rn = Inr (smooth_fit (ln Rn))"
  by (simp add: f_fd_smooth_def smooth_fit_def)

lemma smooth_fit_pos:
  assumes "0 < l" "l \<le> 250"
  shows "0 < smooth_fit l"
proof -
  have "0.001570232 * l \<le> 0.001570232 * 250" using assms by simp
  then have "0 < 0.394203137 - 0.001570232 * l" by simp
  then have "0 < (0.394203137 - 0.001570232 * l) * l" using assms by simp
  then have "0 < (0.394203137 - 0.001570232 * l) * l + 2.534153311" by simp
  then have "0 < ((0.394203137 - 0.001570232 * l) * l + 2.534153311) / l ^ 3"
    using assms by simp
  also have "((0.394203137 - 0.001570232 * l) * l + 2.534153311) / l ^ 3
      = - 0.001570232 / l + 0.394203137 / l\<^sup>2 + 2.534153311 / l ^ 3"
    using assms by (simp add: field_simps power2_eq_square power3_eq_cube)
  finally show ?thesis by (simp add: smooth_fit_def)
qed

lemma smooth_fit_upper:
  assumes "10 \<le> l"
  shows "smooth_fit l \<le> 0.027"
proof -
  define t1 t2 t3 where "t1 = - 0.001570232 / l" and "t2 = 0.394203137 / l\<^sup>2"
    and "t3 = 2.534153311 / l ^ 3"
  have l: "0 < l" using assms by simp
  have "l\<^sup>2 \<ge> 10\<^sup>2" using assms by (intro power_mono) simp_all
  then have "0.394203137 / l\<^sup>2 \<le> 0.394203137 / 10\<^sup>2"
    using l by (intro divide_left_mono) simp_all
  then have a: "t2 \<le> 0.004" by (simp add: t2_def)
  have "l ^ 3 \<ge> 10 ^ 3" using assms by (intro power_mono) simp_all
  then have "2.534153311 / l ^ 3 \<le> 2.534153311 / 10 ^ 3"
    using l by (intro divide_left_mono) simp_all
  then have b: "t3 \<le> 0.0026" by (simp add: t3_def)
  have c: "t1 \<le> 0" using l by (simp add: t1_def)
  have "smooth_fit l = (t1 + t2 + t3) * 4"
    by (simp only: smooth_fit_def t1_def t2_def t3_def)
  then show ?thesis using a b c by simp
qed

lemma ln_3000_bounds: "0 < ln (3000::real)" "ln (3000::real) \<le> 250"
proof -
  show "0 < ln (3000::real)" by simp
  have "(3000::real) \<le> 1 + 250 + 250\<^sup>2 / 2" by simp
  also have "\<dots> \<le> exp 250" by (rule exp_lower_Taylor_quadratic) simp
  finally have "ln (3000::real) \<le> ln (exp 250)" by (subst ln_le_cancel_iff) simp_all
  then show "ln (3000::real) \<le> 250" by simp
qed

lemma entrance_val: "0 < ld \<Longrightarrow> entrance ld = Inr (1 + (1 / ld) powr 0.7)"
  by (simp add: entrance_def)

lemma turbulent_3000_unit:
  "pipeflow_turbulent 3000 1 1 0
     = Inr (smooth_fit (ln 3000) / 8 * 2000 * 2, smooth_fit (ln 3000) * 2)"
proof -
  have p: "\<not> smooth_fit (ln 3000) < 0"
    using smooth_fit_pos [OF ln_3000_bounds] by simp
  show ?thesis
    by (simp add: pipeflow_turbulent_def f_fd_smooth_val Nusselt_Gnielinski_def
        entrance_val math_sqrt_def p)
qed

subsection \<open>The turbulent correlation\<close>

text \<open>What a returned pair tells about the arguments and the values: the operations
  that raise have been passed, so \<open>Re > 0\<close>, \<open>Re \<noteq> 1\<close>, \<open>LD > 0\<close> and
  \<open>Pr \<ge> 0\<close>, and the values are those of the closed formulas.\<close>

lemma py_pow_nonneg: "0 \<le> x \<Longrightarrow> 0 < y \<Longrightarrow> py_pow x y = Inr (x powr y)"
  by (simp add: py_pow_def)

lemma py_pow_neg_frac: "x < 0 \<Longrightarrow> y \<noteq> of_int \<lfloor>y\<rfloor> \<Longrightarrow> py_pow x y = Inl NotReal"
  by (simp add: py_pow_def)

lemma frac_exponents:
  "(2 / 3 :: real) \<noteq> of_int \<lfloor>2 / 3 :: real\<rfloor>"
  "(0.7 :: real) \<noteq> of_int \<lfloor>0.7 :: real\<rfloor>"
  "(0.93 :: real) \<noteq> of_int \<lfloor>0.93 :: real\<rfloor>"
  by simp_all

lemma entrance_Inr: "entrance ld = Inr e \<Longrightarrow> 0 < ld \<and> e = entrance_factor ld"
proof -
  assume a: "entrance ld = Inr e"
  have "ld \<noteq> 0" using a by (auto simp: entrance_def py_div_def)
  moreover have "\<not> ld < 0"
  proof
    assume "ld < 0"
    then have "1 / ld < 0" by simp
    then have "py_pow (1 / ld) 0.7 = Inl NotReal"
      by (rule py_pow_neg_frac) (rule frac_exponents)
    with a \<open>ld \<noteq> 0\<close> show False by (simp add: entrance_def)
  qed
  ultimately have "0 < ld" by simp
  with a show ?thesis by (simp add: entrance_def entrance_factor_def)
qed

lemma f_fd_smooth_Inr:
  "f_fd_smooth Rn = Inr f0 \<Longrightarrow> 0 < Rn \<and> Rn \<noteq> 1 \<and> f0 = smooth_fit (ln Rn)"
  by (auto simp: f_fd_smooth_def math_log_def py_div_def smooth_fit_def bnd_def
      split: if_splits sum.splits)

lemma f_fd_rough_Inr:
  assumes "f_fd_rough Rn rr = Inr f1" "0 < Rn" "0 < rr"
  shows "f1 = rough_fit Rn rr"
proof -
  have p: "0 < (rr / 3.93) powr 1.092 + 7.627 / (Rn + 395.9)"
    using assms by (intro add_pos_pos) simp_all
  have q: "Rn + 395.9 \<noteq> 0" using assms by simp
  have r: "Rn \<noteq> 0" using assms by simp
  have l10: "ln (10::real) \<noteq> 0" by simp
  show ?thesis
    using assms(1) p q r l10 \<open>0 < rr\<close>
    by (simp add: f_fd_rough_def math_log_base_def rough_fit_def rough_arg_def math_log_def
        py_pow_neg2_def bnd_eq_Inr split: if_splits)
qed

lemma Gnielinski_Inr:
  assumes "Nusselt_Gnielinski f_fd Rn pr = Inr G"
  shows "0 \<le> pr \<and> G = Gnielinski f_fd Rn pr"
proof -
  obtain s where s: "math_sqrt (f_fd / 8) = Inr s"
    using assms by (auto simp: Nusselt_Gnielinski_def bnd_eq_Inr)
  then have s': "s = sqrt (f_fd / 8)" by (auto simp: math_sqrt_def split: if_splits)
  have "\<not> pr < 0"
  proof
    assume "pr < 0"
    then have "py_pow pr (2 / 3) = Inl NotReal"
      by (rule py_pow_neg_frac) (rule frac_exponents)
    with assms s show False by (simp add: Nusselt_Gnielinski_def)
  qed
  then have pr: "0 \<le> pr" by simp
  then have "py_pow pr (2 / 3) = Inr (pr powr (2 / 3))" by (simp add: py_pow_nonneg)
  with assms s s' have "G = Gnielinski f_fd Rn pr"
    by (auto simp: Nusselt_Gnielinski_def Gnielinski_def py_div_def split: if_splits)
  with pr show ?thesis by simp
qed

lemma Nusselt_L_lp_val:
  "0 < Rn \<Longrightarrow> 0 \<le> pr \<Longrightarrow> Nusselt_L_lp Rn pr = Inr (Notter_Sleicher Rn pr)"
  by (simp add: Nusselt_L_lp_def Notter_Sleicher_def py_pow_nonneg)

lemma pipeflow_turbulent_Inr:
  assumes "pipeflow_turbulent Rn pr ld rr = Inr (nu, f)"
  defines "f_fd \<equiv> (if rr > 0.00001 then rough_fit Rn rr else smooth_fit (ln Rn))"
  shows "0 < Rn" "Rn \<noteq> 1" "0 < ld" "0 \<le> pr"
    "f = f_fd * entrance_factor ld"
    "nu = (if pr < 0.1 then Notter_Sleicher Rn pr
           else if pr < 0.5
             then Notter_Sleicher Rn pr
                  + (pr - 0.1) * (Gnielinski f_fd Rn pr - Notter_Sleicher Rn pr) / 0.4
           else Gnielinski f_fd Rn pr) * entrance_factor ld"
proof -
  from assms(1) obtain f0 f1 G NuL e1 e2 where
    f0: "f_fd_smooth Rn = Inr f0"
    and f1: "(if rr > 0.00001 then f_fd_rough Rn rr else Inr f0) = Inr f1"
    and G: "Nusselt_Gnielinski f1 Rn pr = Inr G"
    and NuL: "(if pr < 0.5
          then bnd (Nusselt_L_lp Rn pr) (\<lambda>lp.
                 if pr < 0.1 then Inr lp
                 else Inr (lp + (pr - 0.1) * (G - lp) / 0.4))
          else Inr G) = Inr NuL"
    and e1: "entrance ld = Inr e1" and e2: "entrance ld = Inr e2"
    and res: "nu = NuL * e2" "f = f1 * e1"
    unfolding pipeflow_turbulent_def bnd_eq_Inr by auto
  from f_fd_smooth_Inr [OF f0] show Rn: "0 < Rn" "Rn \<noteq> 1" by simp_all
  from entrance_Inr [OF e1] show ld: "0 < ld" by simp
  from Gnielinski_Inr [OF G] show pr: "0 \<le> pr" by simp
  have f1': "f1 = f_fd"
  proof (cases "rr > 0.00001")
    case True
    then have "0 < rr" by simp
    with f1 True f_fd_rough_Inr [of Rn rr f1] Rn show ?thesis by (simp add: f_fd_def)
  next
    case False
    with f1 f_fd_smooth_Inr [OF f0] show ?thesis by (simp add: f_fd_def)
  qed
  show "f = f_fd * entrance_factor ld"
    using res f1' entrance_Inr [OF e1] by simp
  have G': "G = Gnielinski f_fd Rn pr" using Gnielinski_Inr [OF G] f1' by simp
  have "NuL = (if pr < 0.1 then Notter_Sleicher Rn pr
           else if pr < 0.5
             then Notter_Sleicher Rn pr
                  + (pr - 0.1) * (Gnielinski f_fd Rn pr - Notter_Sleicher Rn pr) / 0.4
           else Gnielinski f_fd Rn pr)"
    using NuL G' Nusselt_L_lp_val [OF Rn(1) pr] by (auto split: if_splits)
  then show "nu = (if pr < 0.1 then Notter_Sleicher Rn pr
           else if pr < 0.5
             then Notter_Sleicher Rn pr
                  + (pr - 0.1) * (Gnielinski f_fd Rn pr - Notter_Sleicher Rn pr) / 0.4
           else Gnielinski f_fd Rn pr) * entrance_factor ld"
    using res entrance_Inr [OF e2] by simp
qed


text \<open>Inputs on which the turbulent correlation returns: a smooth tube with
  \<open>10 \<le> ln Re \<le> 250\<close> and any \<open>Pr \<ge> 0\<close>; a rough tube with \<open>Pr \<ge> 1\<close>
  whose logarithm argument is positive and not 1.\<close>

lemma ln_ge_nat:
  assumes "3 ^ n \<le> (x::real)"
  shows "real n \<le> ln x"
proof -
  have x: "0 < x" using assms by (rule less_le_trans [rotated]) simp
  have "exp (real n) = exp 1 ^ n" using exp_of_nat_mult [of n "1::real"] by simp
  also have "\<dots> \<le> 3 ^ n" by (intro power_mono exp_le) simp
  finally have "exp (real n) \<le> x" using assms by simp
  then show ?thesis using x by (simp add: ln_ge_iff)
qed

lemma ln_le_nat:
  assumes "0 < (x::real)" "x \<le> 2 ^ n"
  shows "ln x \<le> real n"
proof -
  have "(2::real) \<le> exp 1" using exp_ge_add_one_self [of 1] by simp
  then have "(2::real) ^ n \<le> exp 1 ^ n" by (intro power_mono) simp_all
  also have "\<dots> = exp (real n)" using exp_of_nat_mult [of n "1::real"] by simp
  finally have "x \<le> exp (real n)" using assms by simp
  then have "ln x \<le> ln (exp (real n))" using assms by (subst ln_le_cancel_iff) simp_all
  then show ?thesis by simp
qed

lemma Gnielinski_denominator_pos:
  assumes "0 \<le> f0" "f0 \<le> 0.027" "0 \<le> p"
  shows "0 < 1 + 12.7 * sqrt (f0 / 8) * (p - 1)"
proof -
  define s where "s = sqrt (f0 / 8)"
  have s0: "0 \<le> s" using assms by (simp add: s_def)
  have "f0 / 8 \<le> (1 / 13)\<^sup>2" using assms by (simp add: power2_eq_square)
  then have "sqrt (f0 / 8) \<le> sqrt ((1 / 13)\<^sup>2)" by (rule real_sqrt_le_mono)
  then have s1: "s \<le> 1 / 13" by (simp add: s_def)
  have "- s \<le> s * (p - 1)"
  proof -
    have "s * (- 1) \<le> s * (p - 1)" using s0 assms by (intro mult_left_mono) simp_all
    then show ?thesis by simp
  qed
  then have "0 < 1 + 12.7 * (s * (p - 1))" using s1 by simp
  then show ?thesis by (simp add: s_def mult.assoc)
qed

lemma pipeflow_turbulent_smooth_returns:
  assumes "1 < Rn" "10 \<le> ln Rn" "ln Rn \<le> 250" "rr \<le> 0.00001" "0 < ld" "0 \<le> pr"
  shows "\<exists>nu f. pipeflow_turbulent Rn pr ld rr = Inr (nu, f)"
proof -
  define f0 where "f0 = smooth_fit (ln Rn)"
  have f0: "0 < f0" "f0 \<le> 0.027"
    using smooth_fit_pos [of "ln Rn"] smooth_fit_upper [of "ln Rn"] assms
    by (simp_all add: f0_def)
  have sm: "f_fd_smooth Rn = Inr f0" using assms by (simp add: f_fd_smooth_val f0_def)
  have "0 < 1 + 12.7 * sqrt (f0 / 8) * (pr powr (2 / 3) - 1)"
    using f0 by (intro Gnielinski_denominator_pos) simp_all
  then have d: "1 + 12.7 * sqrt (f0 / 8) * (pr powr (2 / 3) - 1) \<noteq> 0" by simp
  have sq: "math_sqrt (f0 / 8) = Inr (sqrt (f0 / 8))" using f0 by (simp add: math_sqrt_def)
  have G: "Nusselt_Gnielinski f0 Rn pr = Inr (Gnielinski f0 Rn pr)"
    unfolding Nusselt_Gnielinski_def Gnielinski_def sq
    using d assms by (simp add: py_pow_nonneg del: math_sqrt_ok)
  have lp: "Nusselt_L_lp Rn pr = Inr (Notter_Sleicher Rn pr)"
    using assms by (intro Nusselt_L_lp_val) simp_all
  show ?thesis
    unfolding pipeflow_turbulent_def
    using assms by (simp add: sm G lp entrance_val)
qed

lemma f_fd_rough_val:
  assumes "0 < Rn" "0 < rr" "0 < rough_arg Rn rr" "rough_arg Rn rr \<noteq> 1"
  shows "f_fd_rough Rn rr = Inr (rough_fit Rn rr)"
proof -
  have p: "0 < (rr / 3.93) powr 1.092 + 7.627 / (Rn + 395.9)"
    using assms by (intro add_pos_pos) simp_all
  have q: "Rn + 395.9 \<noteq> 0" using assms by simp
  have l: "ln (rough_arg Rn rr) \<noteq> 0" using assms by simp
  have lg: "math_log_base ((rr / 3.93) powr 1.092 + 7.627 / (Rn + 395.9)) 10
      = Inr (ln ((rr / 3.93) powr 1.092 + 7.627 / (Rn + 395.9)) / ln 10)"
    using p by (simp add: math_log_base_def)
  have m: "math_log (rr / 3.71 - 1.975 / Rn
        * (ln ((rr / 3.93) powr 1.092 + 7.627 / (Rn + 395.9)) / ln 10))
      = Inr (ln (rough_arg Rn rr))"
    using assms(3) unfolding rough_arg_def by (rule math_log_ok)
  have n: "py_pow_neg2 (- 2 * ln (rough_arg Rn rr)) = Inr (rough_fit Rn rr)"
    using l by (simp add: py_pow_neg2_def rough_fit_def)
  have c: "py_div 1.975 Rn = Inr (1.975 / Rn)" using assms by simp
  have pw: "py_pow (rr / 3.93) 1.092 = Inr ((rr / 3.93) powr 1.092)" using assms by simp
  have qd: "py_div 7.627 (Rn + 395.9) = Inr (7.627 / (Rn + 395.9))" using q by simp
  show ?thesis
    unfolding f_fd_rough_def c pw qd bnd_Inr lg m n ..
qed

lemma rough_argument_100000:
  "0 < rough_arg 100000 0.001" "rough_arg 100000 0.001 < 1"
proof -
  define p q :: real where "p = (0.001 / 3.93) powr 1.092" and "q = 7.627 / (100000 + 395.9)"
  have p0: "0 < p" by (simp add: p_def)
  have "(0.001 / 3.93 :: real) powr 1.092 \<le> (0.001 / 3.93) powr 1"
    by (rule powr_mono') simp_all
  then have p1: "p \<le> 0.001" by (simp add: p_def)
  have q0: "0.00001 \<le> q" "q \<le> 0.001" by (simp_all add: q_def)
  have l10: "0 < ln (10::real)" by simp
  have pq: "0 < p + q" "p + q < 1" using p0 p1 q0 by simp_all
  then have "ln (p + q) < 0" by simp
  then have lg_neg: "ln (p + q) / ln 10 < 0" using l10 by (simp add: divide_neg_pos)
  have "ln (0.00001 :: real) \<le> ln (p + q)"
    using p0 q0 by simp
  moreover have "ln (0.00001 :: real) = - 5 * ln 10"
    using ln_realpow [of "10::real" 5] ln_inverse [of "100000::real"]
    by (simp add: inverse_eq_divide)
  ultimately have "- 5 * ln 10 \<le> ln (p + q)" by simp
  then have "(- 5 * ln 10) / ln 10 \<le> ln (p + q) / ln (10::real)"
    using l10 by (intro divide_right_mono) simp_all
  then have lg_low: "- 5 \<le> ln (p + q) / ln 10" using l10 by simp
  define lg where "lg = ln (p + q) / ln 10"
  have lg: "lg < 0" "- 5 \<le> lg" using lg_neg lg_low by (simp_all add: lg_def)
  have a: "rough_arg 100000 0.001 = 0.001 / 3.71 - 1.975 / 100000 * lg"
    by (simp only: rough_arg_def lg_def p_def q_def)
  have "0 < - (1.975 / 100000 * lg)" using lg by (simp add: mult_pos_neg)
  then show "0 < rough_arg 100000 0.001" unfolding a by simp
  have "- (1.975 / 100000 * lg) \<le> 1.975 / 100000 * 5" using lg by simp
  then show "rough_arg 100000 0.001 < 1" unfolding a by simp
qed

lemma pipeflow_turbulent_rough_returns:
  assumes "1 < Rn" "0.00001 < rr" "0 < rough_arg Rn rr" "rough_arg Rn rr \<noteq> 1"
    and "1 \<le> pr" "0 < ld"
  shows "\<exists>nu f. pipeflow_turbulent Rn pr ld rr = Inr (nu, f)"
proof -
  have r: "f_fd_rough Rn rr = Inr (rough_fit Rn rr)"
    using assms by (intro f_fd_rough_val) simp_all
  have sm: "f_fd_smooth Rn = Inr (smooth_fit (ln Rn))"
    using assms by (simp add: f_fd_smooth_val)
  have f: "0 \<le> rough_fit Rn rr" by (simp add: rough_fit_def)
  have "1 \<le> pr powr (2 / 3)" using assms by (simp add: ge_one_powr_ge_zero)
  then have "0 \<le> 12.7 * sqrt (rough_fit Rn rr / 8) * (pr powr (2 / 3) - 1)"
    using f by (intro mult_nonneg_nonneg) simp_all
  then have d: "1 + 12.7 * sqrt (rough_fit Rn rr / 8) * (pr powr (2 / 3) - 1) \<noteq> 0"
    by linarith
  have sq: "math_sqrt (rough_fit Rn rr / 8) = Inr (sqrt (rough_fit Rn rr / 8))"
    using f by (simp add: math_sqrt_def)
  have G: "Nusselt_Gnielinski (rough_fit Rn rr) Rn pr = Inr (Gnielinski (rough_fit Rn rr) Rn pr)"
    unfolding Nusselt_Gnielinski_def Gnielinski_def sq
    using d assms by (simp add: py_pow_nonneg del: math_sqrt_ok)
  show ?thesis
    unfolding pipeflow_turbulent_def
    using assms by (simp add: sm r G entrance_val)
qed

lemma ln_100000: "10 \<le> ln (100000::real)" "ln (100000::real) \<le> 250"
  using ln_ge_nat [of 10 100000] ln_le_nat [of 100000 250] by simp_all

text \<open>
  C7. Whenever \<open>pipeflow_turbulent\<close> returns, its Nusselt number is the
  Notter and Sleicher value when \<open>Pr < 0.1\<close>, the linear blend
  \<open>Nu_lp + (Pr - 0.1) (Nu_Gnielinski - Nu_lp) / 0.4\<close> when \<open>0.1 \<le> Pr < 0.5\<close>, and
  the Gnielinski value from \<open>0.5\<close> on, each times the entrance factor; the Gnielinski
  value uses the friction factor selected by the roughness. At \<open>Pr = 0.1\<close>, where
  the blend branch is taken, the result is the Notter and Sleicher value at
  \<open>0.1\<close> times the entrance factor: the two branches agree there.
\<close>

theorem pipeflow_turbulent_low_Pr_blend:
  assumes "pipeflow_turbulent Rn pr ld rr = Inr (nu, f)"
    and "pipeflow_turbulent Rn 0.1 ld rr = Inr (nu1, f1)"
  defines "f_fd \<equiv> (if rr > 0.00001 then rough_fit Rn rr else smooth_fit (ln Rn))"
  shows "nu = (if pr < 0.1 then Notter_Sleicher Rn pr
               else if pr < 0.5
                 then Notter_Sleicher Rn pr
                      + (pr - 0.1) * (Gnielinski f_fd Rn pr - Notter_Sleicher Rn pr) / 0.4
               else Gnielinski f_fd Rn pr) * entrance_factor ld
       \<and> nu1 = Notter_Sleicher Rn 0.1 * entrance_factor ld"
  using pipeflow_turbulent_Inr(6) [OF assms(1)] pipeflow_turbulent_Inr(6) [OF assms(2)]
  by (simp add: f_fd_def)

theorem pipeflow_turbulent_low_Pr_blend_witness:
  "\<exists>nu f nu1 f1 nu2 f2.
      pipeflow_turbulent 100000 0.05 1 0 = Inr (nu, f)
    \<and> pipeflow_turbulent 100000 0.1 1 0 = Inr (nu1, f1)
    \<and> pipeflow_turbulent 100000 0.3 1 0 = Inr (nu2, f2)
    \<and> nu = Notter_Sleicher 100000 0.05 * 2
    \<and> nu1 = Notter_Sleicher 100000 0.1 * 2
    \<and> nu2 = (Notter_Sleicher 100000 0.3
              + 0.2 * (Gnielinski (smooth_fit (ln 100000)) 100000 0.3
                       - Notter_Sleicher 100000 0.3) / 0.4) * 2"
proof -
  obtain nu f where a: "pipeflow_turbulent 100000 0.05 1 0 = Inr (nu, f)"
    using pipeflow_turbulent_smooth_returns [of 100000 0 1 "0.05"] ln_100000 by auto
  obtain nu1 f1 where b: "pipeflow_turbulent 100000 0.1 1 0 = Inr (nu1, f1)"
    using pipeflow_turbulent_smooth_returns [of 100000 0 1 "0.1"] ln_100000 by auto
  obtain nu2 f2 where c: "pipeflow_turbulent 100000 0.3 1 0 = Inr (nu2, f2)"
    using pipeflow_turbulent_smooth_returns [of 100000 0 1 "0.3"] ln_100000 by auto
  from pipeflow_turbulent_low_Pr_blend [OF a b] pipeflow_turbulent_low_Pr_blend [OF c b] a b c show ?thesis
    by (simp add: entrance_factor_def)
qed

text \<open>The example \<open>Re = 1e5\<close>, relative roughness \<open>1e-3\<close>: the sum inside the
  inner logarithm, the friction factor of lines 33 to 36, the smooth-tube fit, and the
  friction factor of Offor and Alabi as published.\<close>

lemma inner_sum_100000:
  fixes z :: real
  defines "z \<equiv> (0.001 / 3.93) powr 1.092 + 7.627 / (100000 + 395.9)"
  shows "0.00001 \<le> z" "z \<le> 0.0004" "- 5 * ln 10 \<le> ln z" "ln z \<le> - 7"
proof -
  define p q :: real where "p = (0.001 / 3.93) powr 1.092" and "q = 7.627 / (100000 + 395.9)"
  have z: "z = p + q" by (simp only: z_def p_def q_def)
  have p0: "0 < p" by (simp add: p_def)
  have "(0.001 / 3.93 :: real) powr 1.092 \<le> (0.001 / 3.93) powr 1"
    by (rule powr_mono') simp_all
  then have p1: "p \<le> 0.0003" by (simp add: p_def)
  have q0: "0.00001 \<le> q" "q \<le> 0.0001" by (simp_all add: q_def)
  show l: "0.00001 \<le> z" and u: "z \<le> 0.0004" using p0 p1 q0 by (simp_all add: z)
  have z0: "0 < z" using l by simp
  have "ln (0.00001 :: real) \<le> ln z" using l z0 by (subst ln_le_cancel_iff) simp_all
  moreover have "ln (0.00001 :: real) = - 5 * ln 10"
    using ln_realpow [of "10::real" 5] ln_inverse [of "100000::real"]
    by (simp add: inverse_eq_divide)
  ultimately show "- 5 * ln 10 \<le> ln z" by simp
  have "1 / 0.0004 \<le> 1 / z" using u z0 by (intro divide_left_mono) simp_all
  then have "3 ^ 7 \<le> 1 / z" by simp
  then have "real 7 \<le> ln (1 / z)" by (rule ln_ge_nat)
  moreover have "ln (1 / z) = - ln z" using z0 ln_inverse [of z] by (simp add: inverse_eq_divide)
  ultimately show "ln z \<le> - 7" by simp
qed

lemma rough_fit_100000: "rough_fit 100000 0.001 \<le> 1 / 196"
proof -
  define z :: real where "z = (0.001 / 3.93) powr 1.092 + 7.627 / (100000 + 395.9)"
  define lg where "lg = ln z / ln 10"
  have l10: "0 < ln (10::real)" by simp
  have "(- 5 * ln 10) / ln 10 \<le> ln z / ln (10::real)"
    using inner_sum_100000(3) l10 unfolding z_def by (intro divide_right_mono) simp_all
  then have lg: "- 5 \<le> lg" using l10 by (simp add: lg_def)
  have a: "rough_arg 100000 0.001 = 0.001 / 3.71 - 1.975 / 100000 * lg"
    by (simp only: rough_arg_def lg_def z_def)
  have "- (1.975 / 100000 * lg) \<le> 1.975 / 100000 * 5" using lg by simp
  then have u: "rough_arg 100000 0.001 \<le> 0.0004" unfolding a by simp
  have a0: "0 < rough_arg 100000 0.001" by (rule rough_argument_100000)
  define L where "L = ln (rough_arg 100000 0.001)"
  have "1 / 0.0004 \<le> 1 / rough_arg 100000 0.001"
    using u a0 by (intro divide_left_mono) simp_all
  then have "3 ^ 7 \<le> 1 / rough_arg 100000 0.001" by simp
  then have "real 7 \<le> ln (1 / rough_arg 100000 0.001)" by (rule ln_ge_nat)
  moreover have "ln (1 / rough_arg 100000 0.001) = - L"
    using a0 ln_inverse [of "rough_arg 100000 0.001"] by (simp add: inverse_eq_divide L_def)
  ultimately have L: "L \<le> - 7" by simp
  have "7\<^sup>2 \<le> L\<^sup>2" using L by (intro abs_le_square_iff [THEN iffD1]) simp
  then have "196 \<le> (- 2 * L)\<^sup>2" by (simp add: power2_eq_square)
  moreover have "0 < (- 2 * L)\<^sup>2" using L by simp
  ultimately have "1 / (- 2 * L)\<^sup>2 \<le> 1 / 196"
    by (intro divide_left_mono) simp_all
  then show ?thesis by (simp only: rough_fit_def L_def)
qed

lemma smooth_fit_lower:
  assumes "10 \<le> l" "l \<le> 17"
  shows "0.0068 \<le> smooth_fit l"
proof -
  define t1 t2 t3 where "t1 = - 0.001570232 / l" and "t2 = 0.394203137 / l\<^sup>2"
    and "t3 = 2.534153311 / l ^ 3"
  have l: "0 < l" using assms by simp
  have "0.001570232 / l \<le> 0.001570232 / 10"
    using assms by (intro divide_left_mono) simp_all
  then have a: "- 0.00016 \<le> t1" by (simp add: t1_def)
  have "l\<^sup>2 \<le> 17\<^sup>2" using assms by (intro power_mono) simp_all
  then have "0.394203137 / 17\<^sup>2 \<le> 0.394203137 / l\<^sup>2"
    using l by (intro divide_left_mono) simp_all
  then have b: "0.00136 \<le> t2" by (simp add: t2_def)
  have "l ^ 3 \<le> 17 ^ 3" using assms by (intro power_mono) simp_all
  then have "2.534153311 / 17 ^ 3 \<le> 2.534153311 / l ^ 3"
    using l by (intro divide_left_mono) simp_all
  then have c: "0.00051 \<le> t3" by (simp add: t3_def)
  have "smooth_fit l = (t1 + t2 + t3) * 4"
    by (simp only: smooth_fit_def t1_def t2_def t3_def)
  then show ?thesis using a b c by simp
qed

lemma ln_100000_upper: "ln (100000::real) \<le> 17"
  using ln_le_nat [of 100000 17] by simp

lemma Offor_Alabi_100000: "1 / 49 \<le> Offor_Alabi 100000 0.001"
proof -
  define z :: real where "z = (0.001 / 3.93) powr 1.092 + 7.627 / (100000 + 395.9)"
  define a where "a = 0.001 / 3.71 - 1.975 / 100000 * ln z"
  have lz: "- 5 * ln 10 \<le> ln z" "ln z \<le> - 7"
    unfolding z_def by (rule inner_sum_100000)+
  have l10: "0 < ln (10::real)" "ln (10::real) \<le> 4"
    using ln_le_nat [of 10 4] by simp_all
  have "1.975 / 100000 * 7 \<le> - (1.975 / 100000 * ln z)" using lz by simp
  then have al: "0.0004 \<le> a" by (simp add: a_def)
  have "- 20 \<le> ln z" using lz l10 by simp
  then have "- (1.975 / 100000 * ln z) \<le> 1.975 / 100000 * 20" by simp
  then have au: "a < 1" by (simp add: a_def)
  have a0: "0 < a" using al by simp
  have "(0.0004::real)\<^sup>2 \<le> a\<^sup>2" using al by (intro power_mono) simp_all
  then have "(1 / 10 ^ 7 :: real) \<le> a\<^sup>2" by (simp add: power2_eq_square)
  then have "ln (1 / 10 ^ 7 :: real) \<le> ln (a\<^sup>2)" using a0 by (subst ln_le_cancel_iff) simp_all
  moreover have "ln (1 / 10 ^ 7 :: real) = - 7 * ln 10"
    using ln_realpow [of "10::real" 7] ln_inverse [of "10000000::real"]
    by (simp add: inverse_eq_divide)
  moreover have "ln (a\<^sup>2) = 2 * ln a" using a0 ln_realpow [of a 2] by simp
  ultimately have "- 7 * ln 10 \<le> 2 * ln a" by simp
  then have "(- 7 * ln 10) / ln 10 \<le> (2 * ln a) / ln 10"
    using l10 by (intro divide_right_mono) simp_all
  then have g1: "- 7 \<le> 2 * log 10 a" using l10 by (simp add: log_def)
  have "ln a < 0" using a0 au by simp
  then have g2: "log 10 a < 0" using l10 by (simp add: log_def divide_neg_pos)
  define g where "g = log 10 a"
  have g: "- 7 \<le> 2 * g" "g < 0" using g1 g2 by (simp_all add: g_def)
  have "(2 * g)\<^sup>2 \<le> 7\<^sup>2" using g by (intro abs_le_square_iff [THEN iffD1]) simp
  then have "(- 2 * g)\<^sup>2 \<le> 49" by (simp add: power2_eq_square)
  moreover have "0 < (- 2 * g)\<^sup>2" using g by simp
  ultimately have "1 / 49 \<le> 1 / (- 2 * g)\<^sup>2"
    by (intro divide_left_mono) simp_all
  then show ?thesis by (simp only: Offor_Alabi_def g_def a_def z_def)
qed

text \<open>
  C8. The claim: the friction factor before the entrance correction is the
  smooth-tube fit in \<open>ln Re\<close> when the relative roughness is at most \<open>1e-5\<close>, and
  the correlation of Offor and Alabi when it is greater. The switch is as claimed: at
  \<open>1e-5\<close> itself the smooth-tube fit is kept. Above it the source, whose comment
  names Offor and Alabi, computes \<open>(-2 ln (rr / 3.71 - 1.975 / Re log10 (...))) ** (-2)\<close>,
  the two logarithms of the published correlation interchanged. At \<open>Re = 1e5\<close> and
  relative roughness \<open>1e-3\<close> (\<open>Pr = 1\<close>, \<open>LD = 1\<close>, entrance factor 2) the
  friction factor the code returns is twice a value below \<open>0.006\<close>: below the
  smooth-tube value at the same \<open>Re\<close>, and less than a third of the value of Offor
  and Alabi, which is above \<open>0.02\<close>.
\<close>

theorem pipeflow_turbulent_rough_not_Offor_Alabi:
  "pipeflow_turbulent 100000 1 1 0.00001
     = Inr (Gnielinski (smooth_fit (ln 100000)) 100000 1 * 2, smooth_fit (ln 100000) * 2)
   \<and> pipeflow_turbulent 100000 1 1 0.001
     = Inr (Gnielinski (rough_fit 100000 0.001) 100000 1 * 2, rough_fit 100000 0.001 * 2)
   \<and> rough_fit 100000 0.001 < 0.006 \<and> 0.006 < smooth_fit (ln 100000)
   \<and> 0.02 < Offor_Alabi 100000 0.001"
proof -
  obtain nu f where a: "pipeflow_turbulent 100000 1 1 0.00001 = Inr (nu, f)"
    using pipeflow_turbulent_smooth_returns [of 100000 "0.00001" 1 1] ln_100000 by auto
  obtain nu' f' where b: "pipeflow_turbulent 100000 1 1 0.001 = Inr (nu', f')"
    using pipeflow_turbulent_rough_returns [of 100000 "0.001" 1 1] rough_argument_100000
    by auto
  have e: "entrance_factor 1 = 2" by (simp add: entrance_factor_def)
  have "nu = Gnielinski (smooth_fit (ln 100000)) 100000 1 * 2" "f = smooth_fit (ln 100000) * 2"
    using pipeflow_turbulent_Inr(6) [OF a] pipeflow_turbulent_Inr(5) [OF a] by (simp_all add: e)
  moreover have "nu' = Gnielinski (rough_fit 100000 0.001) 100000 1 * 2"
    "f' = rough_fit 100000 0.001 * 2"
    using pipeflow_turbulent_Inr(6) [OF b] pipeflow_turbulent_Inr(5) [OF b] by (simp_all add: e)
  moreover have "rough_fit 100000 0.001 < 0.006" using rough_fit_100000 by simp
  moreover have "0.006 < smooth_fit (ln 100000)"
    using smooth_fit_lower [of "ln 100000"] ln_100000(1) ln_100000_upper by simp
  moreover have "0.02 < Offor_Alabi 100000 0.001" using Offor_Alabi_100000 by simp
  ultimately show ?thesis using a b by simp
qed

subsection \<open>Regime dispatcher\<close>

text \<open>The turbulent correlation does not return for every \<open>Pr > 0\<close>: with a
  relative roughness of 1 at \<open>Re = 3000\<close> the rough-tube friction factor is at
  least \<open>1/16\<close>, and at the Prandtl number \<open>Pr_singular\<close> the denominator of the
  Gnielinski value, computed whatever the Prandtl number, is zero.\<close>

lemma rough_argument_3000:
  "1 / 4 \<le> rough_arg 3000 1" "rough_arg 3000 1 < 1"
proof -
  define p q :: real where "p = (1 / 3.93) powr 1.092" and "q = 7.627 / (3000 + 395.9)"
  have p0: "0 < p" by (simp add: p_def)
  have "(1 / 3.93 :: real) powr 1.092 \<le> (1 / 3.93) powr 1"
    by (rule powr_mono') simp_all
  then have p1: "p \<le> 0.3" by (simp add: p_def)
  have q0: "0.001 \<le> q" "q \<le> 0.01" by (simp_all add: q_def)
  have l10: "0 < ln (10::real)" by simp
  have pq: "0 < p + q" "p + q < 1" using p0 p1 q0 by simp_all
  then have "ln (p + q) < 0" by simp
  then have lg_neg: "ln (p + q) / ln 10 < 0" using l10 by (simp add: divide_neg_pos)
  have "ln (0.001 :: real) \<le> ln (p + q)"
    using p0 q0 by simp
  moreover have "ln (0.001 :: real) = - 3 * ln 10"
    using ln_realpow [of "10::real" 3] ln_inverse [of "1000::real"]
    by (simp add: inverse_eq_divide)
  ultimately have "- 3 * ln 10 \<le> ln (p + q)" by simp
  then have "(- 3 * ln 10) / ln 10 \<le> ln (p + q) / ln (10::real)"
    using l10 by (intro divide_right_mono) simp_all
  then have lg_low: "- 3 \<le> ln (p + q) / ln 10" using l10 by simp
  define lg where "lg = ln (p + q) / ln 10"
  have lg: "lg < 0" "- 3 \<le> lg" using lg_neg lg_low by (simp_all add: lg_def)
  have a: "rough_arg 3000 1 = 1 / 3.71 - 1.975 / 3000 * lg"
    by (simp only: rough_arg_def lg_def p_def q_def)
  have "0 < - (1.975 / 3000 * lg)" using lg by (simp add: mult_pos_neg)
  then show "1 / 4 \<le> rough_arg 3000 1" unfolding a by simp
  have "- (1.975 / 3000 * lg) \<le> 1.975 / 3000 * 3" using lg by simp
  then show "rough_arg 3000 1 < 1" unfolding a by simp
qed

lemma rough_fit_3000: "1 / 16 \<le> rough_fit 3000 1"
proof -
  define L where "L = ln (rough_arg 3000 1)"
  have a: "0 < rough_arg 3000 1" using rough_argument_3000(1) by simp
  have "ln (1 / 4 :: real) \<le> L"
    unfolding L_def using rough_argument_3000(1) a by (subst ln_le_cancel_iff) simp_all
  moreover have "ln (1 / 4 :: real) = - ln 4" using ln_inverse [of "4::real"]
    by (simp add: inverse_eq_divide)
  moreover have "ln (4::real) \<le> 2" using ln_le_nat [of 4 2] by simp
  ultimately have l: "- 2 \<le> L" by simp
  have u: "L < 0" unfolding L_def using a rough_argument_3000(2) by simp
  have "L\<^sup>2 \<le> 2\<^sup>2" using l u by (intro abs_le_square_iff [THEN iffD1]) simp
  then have "(- 2 * L)\<^sup>2 \<le> 16" by (simp add: power2_eq_square)
  moreover have "0 < (- 2 * L)\<^sup>2" using u by simp
  ultimately have "1 / 16 \<le> 1 / (- 2 * L)\<^sup>2"
    by (intro divide_left_mono) simp_all
  then show ?thesis by (simp only: rough_fit_def L_def)
qed

lemma Pr_singular_power:
  "0 < Pr_singular" "sqrt (rough_fit 3000 1 / 8) \<noteq> 0"
  "Pr_singular powr (2 / 3) = 1 - 1 / (12.7 * sqrt (rough_fit 3000 1 / 8))"
proof -
  define s where "s = sqrt (rough_fit 3000 1 / 8)"
  have "(1 / 12 :: real)\<^sup>2 \<le> rough_fit 3000 1 / 8"
    using rough_fit_3000 by (simp add: power2_eq_square)
  then have s: "1 / 12 \<le> s" unfolding s_def by (rule real_le_rsqrt)
  then have "1 < 12.7 * s" by simp
  then have "1 / (12.7 * s) < 1" by simp
  then have b: "0 < 1 - 1 / (12.7 * s)" by linarith
  have nz: "1 - 1 / (12.7 * s) \<noteq> 0" using b by linarith
  show "0 < Pr_singular" unfolding Pr_singular_def s_def [symmetric] powr_gt_zero by (rule nz)
  have "0 < s" using s by linarith
  then show "sqrt (rough_fit 3000 1 / 8) \<noteq> 0"
    unfolding s_def by (rule less_imp_neq [THEN not_sym])
  have "((1 - 1 / (12.7 * s)) powr (3 / 2)) powr (2 / 3) = (1 - 1 / (12.7 * s)) powr 1"
    by (simp add: powr_powr)
  also have "\<dots> = 1 - 1 / (12.7 * s)" using b by simp
  finally show "Pr_singular powr (2 / 3) = 1 - 1 / (12.7 * sqrt (rough_fit 3000 1 / 8))"
    by (simp only: Pr_singular_def s_def)
qed

lemma Gnielinski_singular:
  "Nusselt_Gnielinski (rough_fit 3000 1) 3000 Pr_singular = Inl ZeroDivisionError"
proof -
  define s where "s = sqrt (rough_fit 3000 1 / 8)"
  have s: "s \<noteq> 0" using Pr_singular_power(2) by (simp add: s_def)
  have f: "0 \<le> rough_fit 3000 1 / 8" using rough_fit_3000 by simp
  have sq: "math_sqrt (rough_fit 3000 1 / 8) = Inr s" using f by (simp add: math_sqrt_def s_def)
  have pw: "py_pow Pr_singular (2 / 3) = Inr (1 - 1 / (12.7 * s))"
    using Pr_singular_power(1,3) by (simp add: py_pow_def s_def)
  have z: "1 + 12.7 * s * (1 - 1 / (12.7 * s) - 1) = 0" using s by simp
  show ?thesis
    unfolding Nusselt_Gnielinski_def sq pw bnd_Inr py_div_def z by simp
qed

lemma pipeflow_turbulent_singular:
  "pipeflow_turbulent 3000 Pr_singular ld 1 = Inl ZeroDivisionError"
proof -
  have a: "0 < rough_arg 3000 1" "rough_arg 3000 1 \<noteq> 1" using rough_argument_3000 by simp_all
  have r: "f_fd_rough 3000 1 = Inr (rough_fit 3000 1)"
    using a by (intro f_fd_rough_val) simp_all
  show ?thesis
    unfolding pipeflow_turbulent_def
    by (simp add: f_fd_smooth_val r Gnielinski_singular)
qed

text \<open>
  C5. The claim: for every \<open>Pr > 0\<close>, \<open>LD > 0\<close> and \<open>rr \<ge> 0\<close>,
  \<open>pipeflow_nd(3000, ...)\<close> returns exactly the turbulent values and
  \<open>pipeflow_nd(2300, ...)\<close> exactly the triple of \<open>pipeflow_laminar(2300, ...)\<close>.
  What the code does: at \<open>Re = 3000\<close> and at \<open>Re = 2300\<close> the dispatcher takes its
  blending branch, which evaluates the turbulent correlation at 3000 first and the
  laminar one at 2300 next. For \<open>Pr > 0\<close> and \<open>LD > 0\<close> the laminar evaluation
  returns. So when \<open>pipeflow_turbulent(3000, ...)\<close> returns \<open>(Nu, f)\<close>, the blend
  \<open>lam + 1 (turb - lam)\<close> at 3000 is \<open>(Nu, Nu, f)\<close> and the blend
  \<open>lam + 0 (turb - lam)\<close> at 2300 is the laminar triple, in the exact arithmetic of
  this model (on floats the first of the two is rounded); and when it raises, both
  calls raise the same exception, also at 2300, where the laminar correlation alone
  would have returned.
\<close>

theorem pipeflow_nd_regime_continuity:
  assumes "0 < pr" "0 < ld"
  shows "(case pipeflow_turbulent 3000 pr ld rr of
            Inl e \<Rightarrow> pipeflow_nd 3000 pr ld rr = Inl e \<and> pipeflow_nd 2300 pr ld rr = Inl e
          | Inr (nu, f) \<Rightarrow>
              pipeflow_nd 3000 pr ld rr = Inr (nu, nu, f)
              \<and> pipeflow_nd 2300 pr ld rr = pipeflow_laminar 2300 pr ld rr)"
proof -
  obtain lT lH lf where lam: "pipeflow_laminar 2300 pr ld rr = Inr (lT, lH, lf)"
    using pipeflow_laminar_returns [of 2300 pr ld rr] assms by (auto simp: prod_cases3)
  show ?thesis
  proof (cases "pipeflow_turbulent 3000 pr ld rr")
    case (Inl e)
    then show ?thesis by (simp add: pipeflow_nd_def)
  next
    case (Inr t)
    then show ?thesis
      by (cases t) (simp add: pipeflow_nd_def lam Let_def)
  qed
qed

theorem pipeflow_nd_regime_continuity_witness:
  "pipeflow_turbulent 3000 1 1 0
     = Inr (smooth_fit (ln 3000) / 8 * 2000 * 2, smooth_fit (ln 3000) * 2)
   \<and> pipeflow_nd 3000 1 1 0
     = Inr (smooth_fit (ln 3000) / 8 * 2000 * 2, smooth_fit (ln 3000) / 8 * 2000 * 2,
            smooth_fit (ln 3000) * 2)
   \<and> pipeflow_nd 2300 1 1 0 = pipeflow_laminar 2300 1 1 0"
  using pipeflow_nd_regime_continuity [of 1 1 0] by (simp add: turbulent_3000_unit)

text \<open>At \<open>Pr = Pr_singular\<close> (about 0.269), \<open>LD = 10\<close> and relative roughness 1,
  inside the domain of the claim, \<open>pipeflow_nd(2300, ...)\<close> raises
  \<open>ZeroDivisionError\<close> while \<open>pipeflow_laminar(2300, ...)\<close> returns.\<close>

theorem pipeflow_nd_2300_raises_where_laminar_returns:
  "0 < Pr_singular
   \<and> pipeflow_nd 2300 Pr_singular 10 1 = Inl ZeroDivisionError
   \<and> \<not> isl (pipeflow_laminar 2300 Pr_singular 10 1)"
proof -
  obtain t where l: "pipeflow_laminar 2300 Pr_singular 10 1 = Inr t"
    using pipeflow_laminar_returns [of 2300 Pr_singular 10 1] Pr_singular_power(1) by auto
  have "pipeflow_nd 2300 Pr_singular 10 1 = Inl ZeroDivisionError"
    by (simp add: pipeflow_nd_def pipeflow_turbulent_singular)
  then show ?thesis using l Pr_singular_power(1) by simp
qed

lemma blend_between:
  assumes "2300 < Rn" "Rn < 3000"
  shows "between a b (a + (Rn - 2300) / (3000 - 2300) * (b - a))"
proof -
  define t where "t = (Rn - 2300) / (3000 - 2300)"
  have t: "0 \<le> t" "t \<le> 1" using assms by (simp_all add: t_def)
  have "a + t * (b - a) = (1 - t) * a + t * b" by (simp add: algebra_simps)
  moreover have "min a b \<le> (1 - t) * a + t * b"
  proof -
    have "(1 - t) * min a b \<le> (1 - t) * a" "t * min a b \<le> t * b"
      using t by (simp_all add: mult_left_mono)
    then have "(1 - t) * min a b + t * min a b \<le> (1 - t) * a + t * b" by linarith
    then show ?thesis by (simp add: algebra_simps)
  qed
  moreover have "(1 - t) * a + t * b \<le> max a b"
  proof -
    have "(1 - t) * a \<le> (1 - t) * max a b" "t * b \<le> t * max a b"
      using t by (simp_all add: mult_left_mono)
    then have "(1 - t) * a + t * b \<le> (1 - t) * max a b + t * max a b" by linarith
    then show ?thesis by (simp add: algebra_simps)
  qed
  ultimately show ?thesis by (simp add: between_def t_def)
qed

text \<open>
  C6. For \<open>2300 < Re < 3000\<close>, with \<open>(tNu, tf)\<close> the turbulent values at 3000 and
  \<open>(lT, lH, lf)\<close> the laminar values at 2300, the dispatcher returns three values,
  each between the laminar and the turbulent one, ends included.
\<close>

theorem pipeflow_nd_blend_between:
  assumes "2300 < Rn" "Rn < 3000"
    and "pipeflow_turbulent 3000 pr ld rr = Inr (tNu, tf)"
    and "pipeflow_laminar 2300 pr ld rr = Inr (lT, lH, lf)"
  shows "\<exists>NuT NuH f. pipeflow_nd Rn pr ld rr = Inr (NuT, NuH, f)
           \<and> between lT tNu NuT \<and> between lH tNu NuH \<and> between lf tf f"
  using assms blend_between [OF assms(1,2)]
  by (simp add: pipeflow_nd_def Let_def)


theorem pipeflow_nd_blend_between_witness:
  "\<exists>tNu tf lT lH lf NuT NuH f.
     pipeflow_turbulent 3000 1 1 0 = Inr (tNu, tf)
     \<and> pipeflow_laminar 2300 1 1 0 = Inr (lT, lH, lf)
     \<and> pipeflow_nd 2500 1 1 0 = Inr (NuT, NuH, f)
     \<and> between lT tNu NuT \<and> between lH tNu NuH \<and> between lf tf f"
proof -
  obtain lT lH lf where lam: "pipeflow_laminar 2300 1 1 0 = Inr (lT, lH, lf)"
    using pipeflow_laminar_returns [of 2300 1 1 0] by (auto simp: prod_cases3)
  have "(2300::real) < 2500" "(2500::real) < 3000" by simp_all
  from pipeflow_nd_blend_between [OF this turbulent_3000_unit lam] show ?thesis
    using turbulent_3000_unit lam by blast
qed


subsection \<open>Geometry\<close>

lemma set_geom_val:
  assumes "0 < r_channel s" "0 < core_r s" "0 \<le> fuel_frac s" "fuel_frac s < 1"
  shows "set_geom s = Inr (geom_of s)"
proof -
  define n where "n = (core_r s)\<^sup>2 * pi * (1 - fuel_frac s) / ((r_channel s)\<^sup>2 * pi)"
  have n: "0 < n" using assms by (simp add: n_def)
  have q: "0 \<le> (core_r s)\<^sup>2 * pi * fuel_frac s / n"
    using assms n by (intro divide_nonneg_pos mult_nonneg_nonneg) simp_all
  have d: "math_sqrt ((core_r s)\<^sup>2 * pi * fuel_frac s / n)
      = Inr (sqrt ((core_r s)\<^sup>2 * pi * fuel_frac s / n))"
    using q by (rule math_sqrt_ok)
  have r: "r_channel s * 2 \<noteq> 0" "(r_channel s)\<^sup>2 * pi \<noteq> 0" using assms by simp_all
  have n0: "n \<noteq> 0" using n by simp
  show ?thesis
    unfolding set_geom_def geom_of_def Let_def
    by (simp add: py_div_ok [OF r(1)] py_div_ok [OF r(2)] n_def [symmetric]
        py_div_ok [OF n0] d del: py_div_ok math_sqrt_ok)
qed

lemma getitem_Some [simp]: "d k = Some v \<Longrightarrow> getitem d k = Inr v"
  by (simp add: getitem_def)

lemma getitem_None [simp]: "d k = None \<Longrightarrow> getitem d k = Inl KeyError"
  by (simp add: getitem_def)

lemma math_pow_pos [simp]: "0 < x \<Longrightarrow> math_pow x y = Inr (x powr y)"
  by (simp add: math_pow_def)

lemma ex_flow_val: "0 < r \<Longrightarrow> ex_flow r md dpl = Inr (ex_state r md dpl)"
proof -
  assume r: "0 < r"
  have g: "set_geom (ex_base r md dpl) = Inr (geom_of (ex_base r md dpl))"
    using r by (intro set_geom_val) (simp_all add: ex_base_def)
  have "ex_flow r md dpl
      = bnd (set_geom (ex_base r md dpl)) (\<lambda>s.
        bnd (getitem (fuelprops s) ''T_center'') (\<lambda>tc.
        Inr (s\<lparr>dT := tc - T_bulk (fps s)\<rparr>)))"
    by (simp add: ex_flow_def Flow_init_def ex_phys_props_def ex_base_def getitem_def)
  also have "\<dots> = Inr (ex_state r md dpl)"
    unfolding g bnd_Inr
    by (simp add: ex_state_def geom_of_def ex_base_def ex_fps_def getitem_def Let_def)
  finally show ?thesis .
qed

text \<open>
  C9. For \<open>core_r > 0\<close>, \<open>0 < fuel_frac < 1\<close>, \<open>r_channel > 0\<close> and \<open>AR > 0\<close>,
  \<open>set_geom\<close> returns, and in the state it leaves \<open>A_core = \<pi> core_r\<^sup>2\<close>,
  \<open>A_flow = (1 - fuel_frac) A_core\<close>, \<open>A_fuel = fuel_frac A_core\<close>, so that
  \<open>A_flow + A_fuel = A_core\<close>, \<open>L = AR core_r\<close>, \<open>D_e = 2 r_channel\<close> and
  \<open>N_channels = A_flow / (\<pi> r_channel\<^sup>2)\<close>.
\<close>

theorem set_geom_correct:
  assumes "0 < core_r s" "0 < fuel_frac s" "fuel_frac s < 1" "0 < r_channel s" "0 < AR s"
  shows "\<exists>s'. set_geom s = Inr s'
     \<and> A_core s' = pi * (core_r s)\<^sup>2
     \<and> A_flow s' = (1 - fuel_frac s) * A_core s'
     \<and> A_fuel s' = fuel_frac s * A_core s'
     \<and> A_flow s' + A_fuel s' = A_core s'
     \<and> L_len s' = AR s * core_r s
     \<and> D_e s' = 2 * r_channel s
     \<and> N_channels s' = A_flow s' / (pi * (r_channel s)\<^sup>2)"
proof -
  have "set_geom s = Inr (geom_of s)" using assms by (intro set_geom_val) simp_all
  then show ?thesis
    by (simp add: geom_of_def Let_def algebra_simps)
qed

theorem set_geom_correct_witness:
  "\<exists>s'. set_geom (ex_base 0.005 0.1 500000) = Inr s'
     \<and> A_core s' = pi \<and> A_flow s' = pi / 4 \<and> A_fuel s' = 3 * pi / 4
     \<and> A_flow s' + A_fuel s' = A_core s' \<and> L_len s' = 1 \<and> D_e s' = 0.01
     \<and> N_channels s' = 10000"
proof -
  define s where "s = ex_base 0.005 0.1 500000"
  have f: "core_r s = 1" "fuel_frac s = 3 / 4" "r_channel s = 1 / 200" "AR s = 1"
    by (simp_all add: s_def ex_base_def)
  then have "0 < core_r s" "0 < fuel_frac s" "fuel_frac s < 1" "0 < r_channel s" "0 < AR s"
    by simp_all
  from set_geom_correct [OF this] obtain s' where s': "set_geom s = Inr s'"
    "A_core s' = pi * (core_r s)\<^sup>2"
    "A_flow s' = (1 - fuel_frac s) * A_core s'"
    "A_fuel s' = fuel_frac s * A_core s'"
    "A_flow s' + A_fuel s' = A_core s'"
    "L_len s' = AR s * core_r s"
    "D_e s' = 2 * r_channel s"
    "N_channels s' = A_flow s' / (pi * (r_channel s)\<^sup>2)"
    by blast
  have v: "A_core s' = pi" "A_flow s' = pi / 4" "A_fuel s' = 3 * pi / 4" "L_len s' = 1"
    "D_e s' = 0.01"
    using s' by (simp_all add: f)
  have "N_channels s' = 10000"
    using s'(8) v by (simp add: f power2_eq_square)
  with v s'(1,5) show ?thesis unfolding s_def by blast
qed

subsection \<open>Criticality radius\<close>

text \<open>
  C10. For \<open>fuel_frac > 0\<close>, \<open>constrain_radius\<close> sets \<open>core_r\<close> to
  \<open>a fuel_frac\<^sup>b\<close> with \<open>(a, b)\<close> the table entry of the pair (fuel, coolant), for the
  four pairs of UO2 and UW with CO2 and H2O, and changes nothing else; for every other
  pair it raises \<open>KeyError\<close>.
\<close>

theorem constrain_radius_table:
  assumes "0 < fuel_frac s"
  shows "constrain_radius s =
     (if fuel s = ''UO2'' \<and> coolant s = ''CO2''
        then Inr (s\<lparr>core_r := 0.16271 * fuel_frac s powr (- 0.8515)\<rparr>)
      else if fuel s = ''UO2'' \<and> coolant s = ''H2O''
        then Inr (s\<lparr>core_r := 0.1706 * fuel_frac s powr (- 0.61361)\<rparr>)
      else if fuel s = ''UW'' \<and> coolant s = ''CO2''
        then Inr (s\<lparr>core_r := 0.15385 * fuel_frac s powr (- 0.8309)\<rparr>)
      else if fuel s = ''UW'' \<and> coolant s = ''H2O''
        then Inr (s\<lparr>core_r := 0.16270 * fuel_frac s powr (- 0.6487)\<rparr>)
      else Inl KeyError)"
  using assms by (simp add: constrain_radius_def coeffs_def getitem_def)



theorem constrain_radius_table_witness:
  "constrain_radius (ex_state 0.005 0.1 500000)
     = Inr ((ex_state 0.005 0.1 500000)\<lparr>core_r := 0.15385 * 0.75 powr (- 0.8309)\<rparr>)
   \<and> constrain_radius ((ex_state 0.005 0.1 500000)\<lparr>coolant := ''He''\<rparr>) = Inl KeyError"
  using constrain_radius_table [of "ex_state 0.005 0.1 500000"]
    constrain_radius_table [of "(ex_state 0.005 0.1 500000)\<lparr>coolant := ''He''\<rparr>"]
  by (simp add: ex_state_def ex_base_def geom_of_def Let_def)

subsection \<open>The pressure loop\<close>

text \<open>\<open>characterize_flow\<close> writes seven attributes computed from attributes it does
  not write, so a second run changes nothing; and a new \<open>N_channels\<close> changes neither
  its result nor that of \<open>calc_dp\<close>. Hence an iteration of the loop of \<open>adjust_dp\<close>
  that starts in a characterized state with \<open>dp\<close> above the limit ends in the same
  state but for \<open>N_channels\<close>, with the same \<open>dp\<close>: the loop cannot exit.\<close>

lemma characterize_flow_N_channels:
  "characterize_flow (s\<lparr>N_channels := n\<rparr>)
     = bnd (characterize_flow s) (\<lambda>s'. Inr (s'\<lparr>N_channels := n\<rparr>))"
  unfolding characterize_flow_def Let_def bnd_def
  by (simp split: sum.splits prod.splits)

lemma calc_dp_N_channels:
  "calc_dp (s\<lparr>N_channels := n\<rparr>) = bnd (calc_dp s) (\<lambda>s'. Inr (s'\<lparr>N_channels := n\<rparr>))"
  unfolding calc_dp_def bnd_def by (simp split: sum.splits)

lemma characterize_flow_values:
  "characterize_flow s = bnd (flow_values s) (\<lambda>vs. Inr (with_flow_values s vs))"
  unfolding characterize_flow_def flow_values_def with_flow_values_def Let_def bnd_def
  by (simp split: sum.splits prod.splits)

lemma flow_values_with [simp]: "flow_values (with_flow_values s vs) = flow_values s"
  unfolding flow_values_def with_flow_values_def by (simp split: prod.splits)

lemma with_flow_values_idem [simp]:
  "with_flow_values (with_flow_values s vs) vs = with_flow_values s vs"
  unfolding with_flow_values_def by (simp split: prod.splits)

lemma characterize_flow_idem:
  "characterize_flow s = Inr s' \<Longrightarrow> characterized s'"
  unfolding characterized_def characterize_flow_values bnd_eq_Inr by auto


lemma characterize_flow_N_channels':
  "characterized s \<Longrightarrow> characterized (s\<lparr>N_channels := n\<rparr>)"
  by (simp add: characterized_def characterize_flow_N_channels)

lemma calc_dp_N_channels':
  "calc_dp s = Inr s \<Longrightarrow> calc_dp (s\<lparr>N_channels := n\<rparr>) = Inr (s\<lparr>N_channels := n\<rparr>)"
  by (simp add: calc_dp_N_channels)

lemma dp_exceeded_N_channels: "dp_exceeded s \<Longrightarrow> dp_exceeded (s\<lparr>N_channels := n\<rparr>)"
  by (simp add: dp_exceeded_def characterize_flow_N_channels' calc_dp_N_channels')

lemma get_dp_constrained_Nchannels_N_channels [simp]:
  "get_dp_constrained_Nchannels (s\<lparr>N_channels := n\<rparr>) = get_dp_constrained_Nchannels s"
  by (simp add: get_dp_constrained_Nchannels_def)

lemma adjust_dp_loop_step:
  assumes "dp_exceeded s" "get_dp_constrained_Nchannels s = Inr n"
  shows "adjust_dp_loop s = adjust_dp_loop (s\<lparr>N_channels := of_int n\<rparr>)"
proof -
  have c: "characterize_flow (s\<lparr>N_channels := of_int n\<rparr>) = Inr (s\<lparr>N_channels := of_int n\<rparr>)"
    using assms(1) characterize_flow_N_channels' [of s "of_int n"]
    by (simp add: dp_exceeded_def characterized_def)
  have d: "calc_dp (s\<lparr>N_channels := of_int n\<rparr>) = Inr (s\<lparr>N_channels := of_int n\<rparr>)"
    using assms(1) by (simp add: dp_exceeded_def calc_dp_N_channels')
  have e: "dp s > dp_limit (fps s)" using assms(1) by (simp add: dp_exceeded_def)
  show ?thesis
    by (subst adjust_dp_loop.simps) (simp add: e assms(2) c d)
qed

lemma adjust_dp_loop_never_returns:
  assumes "adjust_dp_loop s = Some y" "dp_exceeded s"
  shows "\<exists>e. y = Inl e"
  using assms
proof (induction rule: adjust_dp_loop.raw_induct [rotated 1, consumes 1, case_names 1])
  case (1 loop s y)
  have e: "dp s > dp_limit (fps s)" using "1.prems" by (simp add: dp_exceeded_def)
  show ?case
  proof (cases "get_dp_constrained_Nchannels s")
    case (Inl e)
    with "1.hyps" e show ?thesis by auto
  next
    case (Inr n)
    let ?s = "s\<lparr>N_channels := of_int n\<rparr>"
    have x: "dp_exceeded ?s" using "1.prems" by (simp add: dp_exceeded_N_channels)
    then have "characterize_flow ?s = Inr ?s" "calc_dp ?s = Inr ?s"
      by (simp_all add: dp_exceeded_def characterized_def)
    with "1.hyps" e Inr have l: "loop ?s = Some y" by simp
    from "1.IH" [OF l x] show ?thesis .
  qed
qed

lemma adjust_dp_loop_no_result:
  assumes "adjust_dp_loop s = Some y" "dp_exceeded s"
    and "get_dp_constrained_Nchannels s = Inr n"
  shows False
  using assms
proof (induction arbitrary: n rule: adjust_dp_loop.raw_induct [rotated 1, consumes 1, case_names 1])
  case (1 loop s y)
  let ?s = "s\<lparr>N_channels := of_int n\<rparr>"
  have e: "dp s > dp_limit (fps s)" using "1.prems" by (simp add: dp_exceeded_def)
  have x: "dp_exceeded ?s" using "1.prems" by (simp add: dp_exceeded_N_channels)
  then have "characterize_flow ?s = Inr ?s" "calc_dp ?s = Inr ?s"
    by (simp_all add: dp_exceeded_def characterized_def)
  with "1.hyps" e "1.prems" have l: "loop ?s = Some y" by simp
  have g: "get_dp_constrained_Nchannels ?s = Inr n" using "1.prems" by simp
  from "1.IH" [OF l x g] show ?case .
qed

lemma adjust_dp_loop_diverges:
  assumes "dp_exceeded s" "get_dp_constrained_Nchannels s = Inr n"
  shows "adjust_dp_loop s = None"
proof (cases "adjust_dp_loop s")
  case None
  then show ?thesis .
next
  case (Some y)
  from adjust_dp_loop_no_result [OF this assms] show ?thesis ..
qed

lemma adjust_dp_within_limit:
  assumes "calc_dp s = Inr s1" "dp s1 \<le> dp_limit (fps s1)"
  shows "adjust_dp s = Some (Inr s1)"
  using assms by (simp add: adjust_dp_def adjust_dp_loop.simps)

subsection \<open>Laminar flow and one trial of the minimizer\<close>

text \<open>For positive arguments the laminar correlation returns, with a Nusselt number
  of at least 3.66 and the friction factor \<open>4 fR / Re\<close>; \<open>fR\<close> is bounded on
  both sides. A trial \<open>compute_Q_from_guess\<close> that returns leaves a characterized
  state whose channel count is the quotient computed by \<open>set_geom\<close>.\<close>

lemma pipeflow_laminar_val:
  assumes "0 < Rn" "0 < pr" "0 < ld"
  shows "\<exists>nu nuH. pipeflow_laminar Rn pr ld rr = Inr (nu, nuH, 4 * lam_fR (ld / Rn) / Rn)
           \<and> 3.66 \<le> nu"
proof -
  have x: "0 < ld / Rn" and Gz: "0 < Rn * pr / ld"
    using assms by simp_all
  have d1: "1 + 0.00021 * (1 / (ld / Rn)\<^sup>2) \<noteq> 0"
    by (rule one_plus_nonneg) simp_all
  have d2: "0 < 1 + 0.065 * (Rn * pr / ld) powr 0.7"
    by (intro add_pos_nonneg mult_nonneg_nonneg) simp_all
  have d3: "1 + 0.1158 * (Rn * pr / ld) powr 0.6 \<noteq> 0"
    by (rule one_plus_nonneg) simp_all
  have s: "sqrt (ld / Rn) \<noteq> 0" using assms by simp
  have b: "0 \<le> (0.049 + 0.02 / pr) * (Rn * pr / ld) powr 1.12
               / (1 + 0.065 * (Rn * pr / ld) powr 0.7)"
    using assms d2 by (intro divide_nonneg_pos mult_nonneg_nonneg add_nonneg_nonneg) simp_all
  have d2': "1 + 0.065 * (Rn * pr / ld) powr 0.7 \<noteq> 0" using d2 by simp
  have "pipeflow_laminar Rn pr ld rr
      = Inr (3.66 + (0.049 + 0.02 / pr) * (Rn * pr / ld) powr 1.12
               / (1 + 0.065 * (Rn * pr / ld) powr 0.7),
             4.36 + (0.1156 + 0.08569 / pr powr 0.4) * (Rn * pr / ld)
               / (1 + 0.1158 * (Rn * pr / ld) powr 0.6),
             4 * lam_fR (ld / Rn) / Rn)"
    unfolding pipeflow_laminar_def Let_def lam_fR_def
    using assms x Gz d1 d2' d3 s by (simp del: real_sqrt_eq_zero_cancel_iff)
  with b show ?thesis by simp
qed

lemma lam_fR_bounds:
  assumes "0 < x"
  shows "16 / (1 + 0.00021 / x\<^sup>2) \<le> lam_fR x"
    and "lam_fR x \<le> 3.44 / sqrt x + 1.25 / (4 * x) + 16"
proof -
  define a where "a = 3.44 / sqrt x"
  define b where "b = 1.25 / (4 * x)"
  define d where "d = 1 + 0.00021 / x\<^sup>2"
  have a: "0 < a" and b: "0 < b" using assms by (simp_all add: a_def b_def)
  have "0 < 0.00021 / x\<^sup>2" using assms by simp
  then have d: "1 < d" by (simp add: d_def)
  have f: "lam_fR x = a + (b + 16 - a) / d"
    by (simp add: lam_fR_def a_def b_def d_def)
  have "a + (b + 16 - a) / d = (a * (d - 1) + b + 16) / d"
    using d by (simp add: field_simps)
  then have f': "lam_fR x = (a * (d - 1) + b + 16) / d" using f by simp
  have "0 \<le> a * (d - 1)" using a d by simp
  then have n: "16 \<le> a * (d - 1) + b + 16" using b by simp
  have "16 / d \<le> (a * (d - 1) + b + 16) / d"
    using n d by (intro divide_right_mono) simp_all
  then show "16 / (1 + 0.00021 / x\<^sup>2) \<le> lam_fR x"
    unfolding f' by (simp add: d_def)
  have "(b + 16 - a) / d \<le> b + 16"
  proof (cases "0 \<le> b + 16 - a")
    case True
    then have "(b + 16 - a) / d \<le> (b + 16 - a) / 1"
      using d by (intro divide_left_mono) simp_all
    then show ?thesis using a by simp
  next
    case False
    then have "(b + 16 - a) / d \<le> 0" using d by (simp add: divide_nonpos_pos)
    then show ?thesis using b by simp
  qed
  then show "lam_fR x \<le> 3.44 / sqrt x + 1.25 / (4 * x) + 16"
    unfolding f by (simp add: a_def b_def)
qed


lemma flow_values_laminar:
  assumes ro: "cladprops s ''rough'' = Some ro"
    and pos: "0 < r_channel s" "0 < A_flow s" "0 < D_e s" "0 < LD s"
      "0 < m_dot (fps s)" "0 < rho (fps s)" "0 < mu (fps s)" "0 < Pr (fps s)"
    and v: "v = m_dot (fps s) / A_flow s / rho (fps s)"
    and re: "re = rho (fps s) * v * D_e s / mu (fps s)"
    and lam: "re < 2300"
  shows "\<exists>nu. flow_values s
           = Inr (ro, ro / (r_channel s * 2), v, re, nu,
                  4 * lam_fR (LD s / re) / re, nu * k_cool (fps s) / D_e s)
         \<and> 3.66 \<le> nu"
proof -
  have v0: "0 < v" using pos by (simp add: v)
  have re0: "0 < re" using pos v0 by (simp add: re)
  obtain nu nuH where l: "pipeflow_laminar re (Pr (fps s)) (LD s) (ro / (r_channel s * 2))
      = Inr (nu, nuH, 4 * lam_fR (LD s / re) / re)" and nu: "3.66 \<le> nu"
    using pipeflow_laminar_val [OF re0 pos(8) pos(4)] by blast
  have nd: "pipeflow_nd re (Pr (fps s)) (LD s) (ro / (r_channel s * 2))
      = Inr (nu, nuH, 4 * lam_fR (LD s / re) / re)"
    using lam l by (simp add: pipeflow_nd_def)
  have d: "r_channel s * 2 \<noteq> 0" "A_flow s \<noteq> 0" "rho (fps s) \<noteq> 0" "mu (fps s) \<noteq> 0"
    "D_e s \<noteq> 0"
    using pos by simp_all
  have "flow_values s
      = Inr (ro, ro / (r_channel s * 2), v, re, nu,
             4 * lam_fR (LD s / re) / re, nu * k_cool (fps s) / D_e s)"
    unfolding flow_values_def getitem_Some [of "cladprops s" "''rough''" ro, OF ro] bnd_Inr py_div_ok [OF d(1)]
      py_div_ok [OF d(2)] py_div_ok [OF d(3)] v [symmetric] py_div_ok [OF d(4)]
      re [symmetric] nd prod.case py_div_ok [OF d(5)] ..
  with nu show ?thesis by blast
qed

lemma get_q_per_channel_Inr:
  "get_q_per_channel s = Inr s' \<Longrightarrow> \<exists>a b c. s' = s\<lparr>R_cond := a, R_conv := b, gen_Q := c\<rparr>"
  unfolding get_q_per_channel_def Let_def bnd_eq_Inr by auto

lemma get_q_per_channel_returns:
  assumes "fuelprops s ''k_fuel'' = Some k" "0 < k" "0 < XS_A_cond s" "0 \<le> radius_cond s"
    and "0 < h_bar s" "0 < r_channel s" "0 < L_len s" "0 < N_channels s"
  shows "\<exists>s'. get_q_per_channel s = Inr s'"
proof -
  define a where "a = radius_cond s / (k * XS_A_cond s)"
  define b where "b = 1 / (h_bar s * r_channel s * 2 * pi * L_len s * N_channels s)"
  have a: "0 \<le> a" using assms by (simp add: a_def)
  have p: "0 < h_bar s * r_channel s * 2 * pi * L_len s * N_channels s"
    using assms by (intro mult_pos_pos) simp_all
  have d2: "h_bar s * r_channel s * 2 * pi * L_len s * N_channels s \<noteq> 0"
    using p by (rule less_imp_neq [THEN not_sym])
  have b: "0 < b" unfolding b_def using p by (rule divide_pos_pos [OF zero_less_one])
  have d1: "k * XS_A_cond s \<noteq> 0" using assms by simp
  have d3: "a + b \<noteq> 0" using a b by simp
  have d4: "pi \<noteq> (0::real)" by simp
  show ?thesis
    unfolding get_q_per_channel_def Let_def
    by (simp add: assms(1) py_div_ok [OF d1] py_div_ok [OF d2] a_def [symmetric]
        b_def [symmetric] py_div_ok [OF d3] py_div_ok [OF d4] del: py_div_ok)
qed

lemma set_geom_Inr:
  "set_geom s = Inr s' \<Longrightarrow>
     N_channels s' = A_flow s' / ((r_channel s')\<^sup>2 * pi) \<and> r_channel s' = r_channel s"
  unfolding set_geom_def Let_def bnd_eq_Inr
  by (auto simp: py_div_def split: if_splits)

lemma characterize_flow_Inr:
  "characterize_flow s = Inr s' \<Longrightarrow>
     characterized s' \<and> N_channels s' = N_channels s \<and> A_flow s' = A_flow s
     \<and> r_channel s' = r_channel s"
  using characterize_flow_idem [of s s']
  unfolding characterize_flow_values bnd_eq_Inr with_flow_values_def
  by (auto split: prod.splits)

lemma characterize_flow_other_fields:
  "characterize_flow (s\<lparr>R_cond := a, R_conv := b, gen_Q := c\<rparr>)
     = bnd (characterize_flow s) (\<lambda>s'. Inr (s'\<lparr>R_cond := a, R_conv := b, gen_Q := c\<rparr>))"
  "characterize_flow (s\<lparr>dp := d\<rparr>) = bnd (characterize_flow s) (\<lambda>s'. Inr (s'\<lparr>dp := d\<rparr>))"
  "characterize_flow (s\<lparr>mass := m\<rparr>) = bnd (characterize_flow s) (\<lambda>s'. Inr (s'\<lparr>mass := m\<rparr>))"
  unfolding characterize_flow_def Let_def bnd_def
  by (simp_all split: sum.splits prod.splits)

lemma characterized_other_fields:
  "characterized s \<Longrightarrow> characterized (s\<lparr>R_cond := a, R_conv := b, gen_Q := c\<rparr>)"
  "characterized s \<Longrightarrow> characterized (s\<lparr>dp := d\<rparr>)"
  "characterized s \<Longrightarrow> characterized (s\<lparr>mass := m\<rparr>)"
  by (simp_all add: characterized_def characterize_flow_other_fields)

lemma compute_Q_from_guess_Inr:
  assumes "compute_Q_from_guess s0 x = Inr (e, s1)"
  shows "characterized s1 \<and> N_channels s1 = A_flow s1 / ((r_channel s1)\<^sup>2 * pi)"
proof -
  from assms obtain sa sb sc where
    g: "set_geom sa = Inr sb" and c: "characterize_flow sb = Inr sc"
    and q: "get_q_per_channel sc = Inr s1"
    unfolding compute_Q_from_guess_def Let_def bnd_eq_Inr by auto
  from get_q_per_channel_Inr [OF q] obtain a b c' where
    s1: "s1 = sc\<lparr>R_cond := a, R_conv := b, gen_Q := c'\<rparr>" by blast
  from set_geom_Inr [OF g] characterize_flow_Inr [OF c]
  show ?thesis by (simp add: s1 characterized_other_fields)
qed

subsection \<open>What the flow results depend on\<close>

lemma characterize_and_dp_reads:
  assumes "A_flow t = A_flow s" "r_channel t = r_channel s" "LD t = LD s"
    and "cladprops t ''rough'' = cladprops s ''rough''"
    and "m_dot (fps t) = m_dot (fps s)" "rho (fps t) = rho (fps s)" "mu (fps t) = mu (fps s)"
    and "Pr (fps t) = Pr (fps s)" "k_cool (fps t) = k_cool (fps s)"
    and "D_e t = D_e s" "L_len t = L_len s"
  shows "characterize_and_dp t = characterize_and_dp s"
  unfolding characterize_and_dp_def characterize_flow_def calc_dp_def flow_outputs_def
    Let_def getitem_def bnd_def
  using assms by (simp split: sum.splits option.splits prod.splits)

lemma ex_state_fields:
  "cladprops (ex_state r md dpl) ''rough'' = Some 0.0000015"
  "r_channel (ex_state r md dpl) = r" "A_flow (ex_state r md dpl) = pi * (1 - 0.75)"
  "D_e (ex_state r md dpl) = 2 * r" "LD (ex_state r md dpl) = 1 / (r * 2)"
  "L_len (ex_state r md dpl) = 1" "fps (ex_state r md dpl) = ex_fps md dpl"
  by (simp_all add: ex_state_def ex_base_def geom_of_def Let_def)

lemma ex_state_characterize_and_dp:
  "\<not> isl (characterize_and_dp (ex_state 0.005 0.1 500000))"
proof -
  define s where "s = ex_state 0.005 0.1 500000"
  define v where "v = m_dot (fps s) / A_flow s / rho (fps s)"
  define re where "re = rho (fps s) * v * D_e s / mu (fps s)"
  have f: "cladprops s ''rough'' = Some 0.0000015" "r_channel s = 0.005"
    "A_flow s = pi * (1 - 0.75)" "D_e s = 2 * 0.005" "LD s = 1 / (0.005 * 2)"
    "fps s = ex_fps 0.1 500000"
    unfolding s_def by (rule ex_state_fields)+
  have q: "m_dot (fps s) = 0.1" "rho (fps s) = 100" "mu (fps s) = 0.00004" "Pr (fps s) = 0.75"
    by (simp_all add: f ex_fps_def)
  have A: "0.5 \<le> A_flow s" using pi_ge_two by (simp add: f)
  then have A0: "0 < A_flow s" by simp
  have "0.1 / A_flow s \<le> 0.1 / 0.5" using A by (intro divide_left_mono) simp_all
  then have vu: "v \<le> 0.002" by (simp add: v_def q)
  have re': "re = 25000 * v" unfolding re_def q f(4) by simp
  have lam: "re < 2300" using vu by (simp add: re')
  have pos: "0 < r_channel s" "0 < D_e s" "0 < LD s" "0 < m_dot (fps s)" "0 < rho (fps s)"
    "0 < mu (fps s)" "0 < Pr (fps s)"
    unfolding q f(2,4,5) by simp_all
  from flow_values_laminar [OF f(1) pos(1) A0 pos(2-7) v_def re_def lam]
  obtain vs where fv: "flow_values s = Inr vs"
    by blast
  have c: "characterize_flow s = Inr (with_flow_values s vs)"
    by (simp add: characterize_flow_values fv)
  have d: "2 * D_e (with_flow_values s vs) \<noteq> 0"
    by (cases vs) (simp add: with_flow_values_def f)
  show ?thesis
    unfolding s_def [symmetric] characterize_and_dp_def c bnd_Inr calc_dp_def py_div_ok [OF d]
    by simp
qed

text \<open>
  C2. The claim: \<open>characterize_flow\<close> followed by \<open>calc_dp\<close> gives the same \<open>v\<close>,
  \<open>Re\<close>, \<open>f\<close>, \<open>Nu\<close>, \<open>h_bar\<close> and \<open>dp\<close> on two states that differ in
  \<open>N_channels\<close> only, and these depend on the state only through \<open>A_flow\<close>,
  \<open>r_channel\<close>, \<open>LD\<close>, the cladding roughness and the fluid properties. What the
  code does: the first part as claimed (the same exception counting as the same
  result). For the second, the two methods also read the attributes \<open>D_e\<close> and
  \<open>L\<close> as they are stored: two states that agree on \<open>A_flow\<close>, \<open>r_channel\<close>,
  \<open>LD\<close>, the cladding roughness, the attributes \<open>m_dot\<close>, \<open>rho\<close>, \<open>mu\<close>,
  \<open>Pr\<close> and \<open>k_cool\<close> of \<open>fps\<close>, and on \<open>D_e\<close> and \<open>L\<close>, give the same
  results, whatever their other attributes.
\<close>

theorem flow_outputs_inputs:
  assumes "A_flow t = A_flow s" "r_channel t = r_channel s" "LD t = LD s"
    and "cladprops t ''rough'' = cladprops s ''rough''"
    and "m_dot (fps t) = m_dot (fps s)" "rho (fps t) = rho (fps s)" "mu (fps t) = mu (fps s)"
    and "Pr (fps t) = Pr (fps s)" "k_cool (fps t) = k_cool (fps s)"
    and "D_e t = D_e s" "L_len t = L_len s"
  shows "characterize_and_dp (s\<lparr>N_channels := n\<rparr>) = characterize_and_dp s
       \<and> characterize_and_dp t = characterize_and_dp s"
proof
  show "characterize_and_dp (s\<lparr>N_channels := n\<rparr>) = characterize_and_dp s"
    by (rule characterize_and_dp_reads) simp_all
  show "characterize_and_dp t = characterize_and_dp s"
    using assms by (rule characterize_and_dp_reads)
qed

theorem flow_outputs_inputs_witness:
  "characterize_and_dp ((ex_state 0.005 0.1 500000)\<lparr>N_channels := 6\<rparr>)
     = characterize_and_dp (ex_state 0.005 0.1 500000)
   \<and> characterize_and_dp ((ex_state 0.005 0.1 500000)
        \<lparr>fuel_frac := 0.5, core_r := 2, A_fuel := 3, N_channels := 7, gen_Q := 1\<rparr>)
     = characterize_and_dp (ex_state 0.005 0.1 500000)"
proof -
  define s where "s = ex_state 0.005 0.1 500000"
  define t where "t = s\<lparr>fuel_frac := 0.5, core_r := 2, A_fuel := 3, N_channels := 7, gen_Q := 1\<rparr>"
  have "A_flow t = A_flow s" "r_channel t = r_channel s" "LD t = LD s"
    "cladprops t ''rough'' = cladprops s ''rough''"
    "m_dot (fps t) = m_dot (fps s)" "rho (fps t) = rho (fps s)" "mu (fps t) = mu (fps s)"
    "Pr (fps t) = Pr (fps s)" "k_cool (fps t) = k_cool (fps s)"
    "D_e t = D_e s" "L_len t = L_len s"
    by (simp_all add: t_def)
  from flow_outputs_inputs [OF this, of 6]
  show ?thesis unfolding t_def s_def by simp
qed

text \<open>The example state and the same state with \<open>D_e\<close> set to 0 agree on every
  attribute the claim lists; on the first the two methods return, on the second
  \<open>characterize_flow\<close> raises \<open>ZeroDivisionError\<close>.\<close>

theorem flow_outputs_read_D_e:
  "A_flow ((ex_state 0.005 0.1 500000)\<lparr>D_e := 0\<rparr>) = A_flow (ex_state 0.005 0.1 500000)
   \<and> r_channel ((ex_state 0.005 0.1 500000)\<lparr>D_e := 0\<rparr>) = r_channel (ex_state 0.005 0.1 500000)
   \<and> LD ((ex_state 0.005 0.1 500000)\<lparr>D_e := 0\<rparr>) = LD (ex_state 0.005 0.1 500000)
   \<and> cladprops ((ex_state 0.005 0.1 500000)\<lparr>D_e := 0\<rparr>) = cladprops (ex_state 0.005 0.1 500000)
   \<and> fps ((ex_state 0.005 0.1 500000)\<lparr>D_e := 0\<rparr>) = fps (ex_state 0.005 0.1 500000)
   \<and> characterize_and_dp ((ex_state 0.005 0.1 500000)\<lparr>D_e := 0\<rparr>) = Inl ZeroDivisionError
   \<and> \<not> isl (characterize_and_dp (ex_state 0.005 0.1 500000))"
proof -
  define s where "s = ex_state 0.005 0.1 500000"
  have f: "cladprops s ''rough'' = Some 0.0000015" "r_channel s = 0.005"
    "A_flow s = pi * (1 - 0.75)" "LD s = 1 / (0.005 * 2)"
    "fps s = ex_fps 0.1 500000"
    unfolding s_def by (rule ex_state_fields)+
  have l: "pipeflow_laminar 0 pr 100 rr = Inl ZeroDivisionError" for pr rr
    by (simp add: pipeflow_laminar_def py_div_def)
  have "characterize_flow (s\<lparr>D_e := 0\<rparr>) = Inl ZeroDivisionError"
    unfolding characterize_flow_def Let_def
    by (simp add: f ex_fps_def pipeflow_nd_def l getitem_def)
  then have "characterize_and_dp (s\<lparr>D_e := 0\<rparr>) = Inl ZeroDivisionError"
    by (simp add: characterize_and_dp_def)
  then show ?thesis
    using ex_state_characterize_and_dp unfolding s_def by simp
qed

subsection \<open>The design run\<close>

text \<open>On a characterized state \<open>adjust_dp\<close> returns exactly when the first
  \<open>calc_dp\<close> is within the limit, and then with nothing changed but \<open>dp\<close>;
  otherwise it raises in its first iteration or runs forever. A design run that
  returns therefore ends with the channel count of the last trial's \<open>set_geom\<close>.\<close>

lemma evaluate_Inr:
  assumes "evaluate xs s = Inr s1" "xs \<noteq> []"
  shows "characterized s1 \<and> N_channels s1 = A_flow s1 / ((r_channel s1)\<^sup>2 * pi)"
  using assms
proof (induction xs arbitrary: s)
  case Nil
  then show ?case by simp
next
  case (Cons x xs)
  from Cons.prems(1) obtain err s' where
    q: "compute_Q_from_guess s x = Inr (err, s')" and r: "evaluate xs s' = Inr s1"
    by (auto simp: calc_n_channels_error_def bnd_eq_Inr)
  show ?case
  proof (cases "xs = []")
    case True
    with r have "s1 = s'" by simp
    with compute_Q_from_guess_Inr [OF q] show ?thesis by simp
  next
    case False
    from Cons.IH [OF r False] show ?thesis .
  qed
qed

lemma calc_dp_Inr:
  assumes "calc_dp s = Inr s1"
  shows "\<exists>d. s1 = s\<lparr>dp := d\<rparr>" and "calc_dp s1 = Inr s1"
proof -
  from assms have d: "2 * D_e s \<noteq> 0"
    and s1: "s1 = s\<lparr>dp := f_fric s * L_len s * rho (fps s) * v_flow s * v_flow s / (2 * D_e s)\<rparr>"
    by (auto simp: calc_dp_def py_div_def bnd_eq_Inr split: if_splits)
  from s1 show "\<exists>d. s1 = s\<lparr>dp := d\<rparr>" by blast
  show "calc_dp s1 = Inr s1"
    using d by (simp add: calc_dp_def s1 py_div_def)
qed

lemma adjust_dp_characterized:
  assumes "characterized s" "calc_dp s = Inr s1"
  shows "adjust_dp s =
     (if dp s1 \<le> dp_limit (fps s1) then Some (Inr s1)
      else case get_dp_constrained_Nchannels s1 of
             Inl e \<Rightarrow> Some (Inl e)
           | Inr n \<Rightarrow> None)"
proof (cases "dp s1 \<le> dp_limit (fps s1)")
  case True
  with assms(2) show ?thesis by (simp add: adjust_dp_within_limit)
next
  case False
  from calc_dp_Inr [OF assms(2)] obtain d where s1: "s1 = s\<lparr>dp := d\<rparr>"
    and i: "calc_dp s1 = Inr s1" by blast
  have "characterized s1" unfolding s1 using assms(1) by (rule characterized_other_fields)
  with i False have x: "dp_exceeded s1" by (simp add: dp_exceeded_def)
  have a: "adjust_dp s = adjust_dp_loop s1" using assms(2) by (simp add: adjust_dp_def)
  show ?thesis
  proof (cases "get_dp_constrained_Nchannels s1")
    case (Inl e)
    then show ?thesis using False a
      by (subst (asm) adjust_dp_loop.simps) simp
  next
    case (Inr n)
    from adjust_dp_loop_diverges [OF x Inr] show ?thesis using False a Inr by simp
  qed
qed

lemma adjust_dp_Some_Inr:
  assumes "adjust_dp s = Some (Inr s2)" "characterized s"
  shows "\<exists>d. s2 = s\<lparr>dp := d\<rparr> \<and> d \<le> dp_limit (fps s)"
proof -
  from assms(1) obtain s1 where c: "calc_dp s = Inr s1"
    by (auto simp: adjust_dp_def split: sum.splits)
  from calc_dp_Inr(1) [OF c] obtain d where s1: "s1 = s\<lparr>dp := d\<rparr>" by blast
  from adjust_dp_characterized [OF assms(2) c] assms(1)
  have "dp s1 \<le> dp_limit (fps s1) \<and> s2 = s1"
    by (auto split: if_splits sum.splits)
  then show ?thesis by (auto simp: s1)
qed

lemma calc_reactor_mass_Inr:
  "calc_reactor_mass s = Inr s' \<Longrightarrow> \<exists>m. s' = s\<lparr>mass := m\<rparr>"
  unfolding calc_reactor_mass_def Let_def bnd_eq_Inr by auto

lemma oned_flow_modeling_Inr:
  assumes "oned_flow_modeling run s = Some (Inr s')" "trials run \<noteq> []"
  shows "N_channels s' = A_flow s' / ((r_channel s')\<^sup>2 * pi)
       \<and> dp s' \<le> dp_limit (fps s')"
proof -
  from assms(1) obtain s1 s2 where e: "evaluate (trials run) s = Inr s1"
    and a: "adjust_dp s1 = Some (Inr s2)" and m: "calc_reactor_mass s2 = Inr s'"
    by (auto simp: oned_flow_modeling_def find_n_channels_def
        split: sum.splits option.splits)
  from evaluate_Inr [OF e assms(2)] have c: "characterized s1"
    and n: "N_channels s1 = A_flow s1 / ((r_channel s1)\<^sup>2 * pi)" by simp_all
  from adjust_dp_Some_Inr [OF a c] obtain d where
    s2: "s2 = s1\<lparr>dp := d\<rparr>" and d: "d \<le> dp_limit (fps s1)" by blast
  from calc_reactor_mass_Inr [OF m] obtain ms where s': "s' = s2\<lparr>mass := ms\<rparr>" by blast
  show ?thesis using n d by (simp add: s' s2)
qed

subsection \<open>The example design, evaluated\<close>

text \<open>One trial at fuel fraction one half on the example: the core radius lies in
  \<open>[0.15, 0.31]\<close>, the flow is laminar for the mass flow rates considered, every
  operation returns, and the pressure drop of \<open>calc_dp\<close> lies between two explicit
  bounds. The bounds use \<open>2 \<le> \<pi> \<le> 4\<close> and a number \<open>c\<close> with
  \<open>c\<^sup>2 \<le> LD / Re\<close>.\<close>

lemma ex_core_r_bounds: "0.15 \<le> ex_core_r" "ex_core_r \<le> 0.31"
proof -
  have "(1 / 2 :: real) powr 0 \<le> (1 / 2) powr (- 0.8309)"
    by (rule powr_mono') simp_all
  then have l: "1 \<le> (1 / 2 :: real) powr (- 0.8309)" by simp
  have "(1 / 2 :: real) powr (- 0.8309) \<le> (1 / 2) powr (- 1)"
    by (rule powr_mono') simp_all
  moreover have "(1 / 2 :: real) powr (- 1) = 2"
    by (simp add: powr_minus)
  ultimately have u: "(1 / 2 :: real) powr (- 0.8309) \<le> 2" by simp
  define p :: real where "p = (1 / 2) powr (- 0.8309)"
  have k: "ex_core_r = 0.15385 * p" by (simp add: ex_core_r_def p_def)
  show "0.15 \<le> ex_core_r" "ex_core_r \<le> 0.31"
    using l u unfolding k p_def [symmetric] by simp_all
qed

lemma ex_constrain_radius:
  "constrain_radius ((ex_state r md dpl)\<lparr>fuel_frac := 1 / 2\<rparr>)
     = Inr ((ex_state r md dpl)\<lparr>fuel_frac := 1 / 2, core_r := ex_core_r\<rparr>)"
  by (simp add: constrain_radius_def coeffs_def getitem_def ex_state_def ex_base_def
      geom_of_def Let_def ex_core_r_def)


lemma laminar_dp_interval:
  fixes r md c k A v re ld f d :: real
  assumes r: "0 < r" and md: "0 < md" and c: "0 < c"
    and cx: "c\<^sup>2 \<le> 0.00000003 / (r\<^sup>2 * md)"
    and k: "0.15 \<le> k" "k \<le> 0.31"
    and A: "A = k\<^sup>2 * pi * (1 - 1 / 2)"
    and v: "v = md / A / 100"
    and re: "re = 100 * v * (2 * r) / 0.00004"
    and ld: "ld = 1 * k / (r * 2)"
    and f: "f = 4 * lam_fR (ld / re) / re"
    and d: "d = f * k * 100 * v * v / (2 * (2 * r))"
  defines "FU \<equiv> 3.44 / c + 1.25 / (4 * c\<^sup>2) + 16"
    and "FL \<equiv> 16 / (1 + 0.00021 / c ^ 4)"
  shows "0 < A" "0 < v" "0 < re" "re \<le> 5000000 * r * md / 2" "0 < ld" "0 < f"
    and "d \<le> 4 * FU / (250000 * r * md) * 0.31 * (md / 2) * (md / 2) * (25 / r)"
    and "4 * FL / (5000000 * r * md / 2) * 0.15 * (md / 20) * (md / 20) * (25 / r) \<le> d"
proof -
  have k0: "0 < k" using k by simp
  have "(0.15::real)\<^sup>2 \<le> k\<^sup>2" using k by (intro power_mono) simp_all
  then have k2l: "0.0225 \<le> k\<^sup>2" by (simp add: power2_eq_square)
  have "k\<^sup>2 \<le> (0.31::real)\<^sup>2" using k by (intro power_mono) simp_all
  then have k2u: "k\<^sup>2 \<le> 0.0961" by (simp add: power2_eq_square)
  have pl: "2 \<le> pi" by (rule pi_ge_two)
  have pu: "pi \<le> 4" using pi_less_4 by simp
  have "0.0225 * 2 \<le> k\<^sup>2 * pi" using k2l pl by (intro mult_mono) simp_all
  then have Al: "0.02 \<le> A" by (simp add: A)
  have "k\<^sup>2 * pi \<le> 0.0961 * 4" using k2u pu by (intro mult_mono) simp_all
  then have Au: "A \<le> 0.2" by (simp add: A)
  show A0: "0 < A" using Al by simp
  have v': "v = md / (100 * A)" by (simp add: v)
  have "md / (100 * A) \<le> md / (100 * 0.02)"
    using md Al A0 by (intro divide_left_mono) simp_all
  then have vu: "v \<le> md / 2" by (simp add: v')
  have "md / (100 * 0.2) \<le> md / (100 * A)"
    using md Au A0 by (intro divide_left_mono) simp_all
  then have vl: "md / 20 \<le> v" by (simp add: v')
  show v0: "0 < v" using md A0 by (simp add: v')
  have re': "re = 5000000 * r * v" by (simp add: re)
  show re0: "0 < re" using r v0 by (simp add: re')
  have "5000000 * r * v \<le> 5000000 * r * (md / 2)"
    using r vu by (intro mult_left_mono) simp_all
  then show reu: "re \<le> 5000000 * r * md / 2" by (simp add: re')
  have "5000000 * r * (md / 20) \<le> 5000000 * r * v"
    using r vl by (intro mult_left_mono) simp_all
  then have rel: "250000 * r * md \<le> re" by (simp add: re')
  have ld': "ld = k / (2 * r)" by (simp add: ld)
  show ld0: "0 < ld" using k0 r by (simp add: ld')
  have "0.15 / (2 * r) \<le> k / (2 * r)" using k r by (intro divide_right_mono) simp_all
  then have ldl: "0.15 / (2 * r) \<le> ld" by (simp add: ld')
  define x where "x = ld / re"
  have x0: "0 < x" using ld0 re0 by (simp add: x_def)
  have q: "0.15 / (2 * r) / (5000000 * r * md / 2) \<le> ld / re"
    using ldl reu re0 r md ld0 by (intro frac_le) simp_all
  have e: "0.15 / (2 * r) / (5000000 * r * md / 2) = 0.00000003 / (r\<^sup>2 * md)"
    using r md by (simp add: power2_eq_square field_simps)
  note cx
  also note e [symmetric]
  also note q
  finally have xl: "c\<^sup>2 \<le> x" unfolding x_def .
  from xl have sx: "c \<le> sqrt x" by (rule real_le_rsqrt)
  have "(c\<^sup>2)\<^sup>2 \<le> x\<^sup>2" using xl by (intro power_mono) simp_all
  then have x2: "c ^ 4 \<le> x\<^sup>2" by simp
  have c4: "0 < c ^ 4" using c by simp
  define fR where "fR = lam_fR x"
  have "fR \<le> 3.44 / sqrt x + 1.25 / (4 * x) + 16"
    unfolding fR_def using x0 by (rule lam_fR_bounds)
  moreover have "3.44 / sqrt x \<le> 3.44 / c"
    using sx c by (intro divide_left_mono mult_pos_pos) (simp_all add: x0)
  moreover have "1.25 / (4 * x) \<le> 1.25 / (4 * c\<^sup>2)"
    using xl c x0 by (intro divide_left_mono mult_pos_pos) simp_all
  ultimately have fRu: "fR \<le> FU" by (simp add: FU_def)
  have "0.00021 / x\<^sup>2 \<le> 0.00021 / c ^ 4"
    using x2 c4 x0 by (intro divide_left_mono mult_pos_pos) simp_all
  then have "1 + 0.00021 / x\<^sup>2 \<le> 1 + 0.00021 / c ^ 4" by simp
  moreover have "0 < 1 + 0.00021 / x\<^sup>2" using x0 by (intro add_pos_nonneg) simp_all
  ultimately have "16 / (1 + 0.00021 / c ^ 4) \<le> 16 / (1 + 0.00021 / x\<^sup>2)"
    using c4 by (intro divide_left_mono mult_pos_pos add_pos_nonneg) simp_all
  moreover have "16 / (1 + 0.00021 / x\<^sup>2) \<le> fR"
    unfolding fR_def using x0 by (rule lam_fR_bounds)
  ultimately have fRl: "FL \<le> fR" by (simp add: FL_def)
  have FL0: "0 < FL" unfolding FL_def using c4 by (intro divide_pos_pos add_pos_nonneg) simp_all
  have fR0: "0 < fR" using FL0 fRl by simp
  have f': "f = 4 * fR / re" by (simp add: f fR_def x_def)
  have rmd: "0 < 250000 * r * md" using r md by simp
  have fu: "f \<le> 4 * FU / (250000 * r * md)"
    unfolding f' using fRu rel rmd fR0 by (intro frac_le) simp_all
  have fl: "4 * FL / (5000000 * r * md / 2) \<le> f"
    unfolding f' using fRl reu re0 FL0 by (intro frac_le) simp_all
  show f0: "0 < f" unfolding f' using fR0 re0 by simp
  have fl0: "0 \<le> 4 * FL / (5000000 * r * md / 2)" using FL0 r md by simp
  have d': "d = f * k * v * v * (25 / r)" using r by (simp add: d)
  have "f * k * v * v \<le> 4 * FU / (250000 * r * md) * 0.31 * (md / 2) * (md / 2)"
    using fu k vu f0 k0 v0 by (intro mult_mono mult_nonneg_nonneg) simp_all
  then have "f * k * v * v * (25 / r)
      \<le> 4 * FU / (250000 * r * md) * 0.31 * (md / 2) * (md / 2) * (25 / r)"
    using r by (intro mult_right_mono) simp_all
  then show "d \<le> 4 * FU / (250000 * r * md) * 0.31 * (md / 2) * (md / 2) * (25 / r)"
    by (simp only: d')
  have "4 * FL / (5000000 * r * md / 2) * 0.15 * (md / 20) * (md / 20) \<le> f * k * v * v"
    using fl k vl fl0 md by (intro mult_mono mult_nonneg_nonneg) simp_all
  then have "4 * FL / (5000000 * r * md / 2) * 0.15 * (md / 20) * (md / 20) * (25 / r)
      \<le> f * k * v * v * (25 / r)"
    using r by (intro mult_right_mono) simp_all
  then show "4 * FL / (5000000 * r * md / 2) * 0.15 * (md / 20) * (md / 20) * (25 / r) \<le> d"
    by (simp only: d')
qed


lemma ex_trial:
  assumes r: "0 < r" and md: "0 < md" and lam: "5000000 * r * md / 2 < 2300"
    and c: "0 < c" "c\<^sup>2 \<le> 0.00000003 / (r\<^sup>2 * md)"
  shows "\<exists>e s1 d. compute_Q_from_guess (ex_state r md dpl) (1 / 2) = Inr (e, s1)
      \<and> characterized s1 \<and> calc_dp s1 = Inr (s1\<lparr>dp := d\<rparr>)
      \<and> d \<le> 4 * (3.44 / c + 1.25 / (4 * c\<^sup>2) + 16) / (250000 * r * md)
              * 0.31 * (md / 2) * (md / 2) * (25 / r)
      \<and> 4 * (16 / (1 + 0.00021 / c ^ 4)) / (5000000 * r * md / 2)
              * 0.15 * (md / 20) * (md / 20) * (25 / r) \<le> d
      \<and> fps s1 = ex_fps md dpl \<and> D_e s1 = 2 * r \<and> 0 < A_flow s1
      \<and> 0 < f_fric s1 \<and> 0 < L_len s1
      \<and> N_channels s1 = ex_core_r\<^sup>2 / (2 * r\<^sup>2)
      \<and> fuelprops s1 ''rho_fuel'' = Some 12500 \<and> reflprops s1 ''rho'' = Some 1700"
proof -
  define sb where "sb = (ex_state r md dpl)\<lparr>fuel_frac := 1 / 2, core_r := ex_core_r\<rparr>"
  define sc where "sc = geom_of sb"
  have k0: "0 < ex_core_r" using ex_core_r_bounds by simp
  have sb: "r_channel sb = r" "core_r sb = ex_core_r" "fuel_frac sb = 1 / 2"
    by (simp_all add: sb_def ex_state_def ex_base_def geom_of_def Let_def)
  have g: "set_geom sb = Inr sc"
    unfolding sc_def using r k0 by (intro set_geom_val) (simp_all add: sb)
  have sc: "cladprops sc ''rough'' = Some 0.0000015" "r_channel sc = r"
    "A_flow sc = ex_core_r\<^sup>2 * pi * (1 - 1 / 2)" "D_e sc = 2 * r"
    "LD sc = 1 * ex_core_r / (r * 2)" "L_len sc = ex_core_r" "fps sc = ex_fps md dpl"
    "N_channels sc = ex_core_r\<^sup>2 * pi * (1 - 1 / 2) / (r\<^sup>2 * pi)"
    "fuelprops sc ''k_fuel'' = Some 51" "fuelprops sc ''rho_fuel'' = Some 12500"
    "reflprops sc ''rho'' = Some 1700"
    "XS_A_cond sc = pi * r * ex_core_r * 2 * (ex_core_r\<^sup>2 * pi * (1 - 1 / 2) / (r\<^sup>2 * pi))"
    "0 \<le> radius_cond sc"
    by (simp_all add: sc_def sb_def ex_state_def ex_base_def geom_of_def Let_def)
  have fq: "m_dot (ex_fps md dpl) = md" "rho (ex_fps md dpl) = 100"
    "mu (ex_fps md dpl) = 0.00004" "Pr (ex_fps md dpl) = 0.75"
    "k_cool (ex_fps md dpl) = 0.07"
    by (simp_all add: ex_fps_def)
  have fp: "m_dot (fps sc) = md" "rho (fps sc) = 100" "mu (fps sc) = 0.00004"
    "Pr (fps sc) = 0.75" "k_cool (fps sc) = 0.07"
    by (simp_all add: sc fq)
  define v where "v = m_dot (fps sc) / A_flow sc / rho (fps sc)"
  define re where "re = rho (fps sc) * v * D_e sc / mu (fps sc)"
  define f where "f = 4 * lam_fR (LD sc / re) / re"
  define d where "d = f * ex_core_r * 100 * v * v / (2 * (2 * r))"
  have v': "v = md / A_flow sc / 100" by (simp add: v_def fp)
  have re': "re = 100 * v * (2 * r) / 0.00004" by (simp add: re_def fq sc)
  note iv = laminar_dp_interval [OF r md c ex_core_r_bounds sc(3) v' re' sc(5) f_def d_def]
  have A0: "0 < A_flow sc" and v0: "0 < v" and re0: "0 < re" and ld0: "0 < LD sc"
    and f0: "0 < f" by (rule iv)+
  have rel: "re < 2300" using iv(4) lam by simp
  from flow_values_laminar [OF sc(1) _ A0 _ ld0 _ _ _ _ v_def re_def rel]
  obtain nu where fv: "flow_values sc
      = Inr (0.0000015, 0.0000015 / (r_channel sc * 2), v, re, nu, f,
             nu * k_cool (fps sc) / D_e sc)" and nu: "3.66 \<le> nu"
    using r md by (auto simp: sc fq f_def)
  define sd where "sd = with_flow_values sc
    (0.0000015, 0.0000015 / (r_channel sc * 2), v, re, nu, f, nu * k_cool (fps sc) / D_e sc)"
  have ch: "characterize_flow sc = Inr sd"
    by (simp add: characterize_flow_values fv sd_def)
  have sd: "fuelprops sd ''k_fuel'' = Some 51" "XS_A_cond sd = XS_A_cond sc"
    "radius_cond sd = radius_cond sc" "h_bar sd = nu * 0.07 / (2 * r)" "r_channel sd = r"
    "L_len sd = ex_core_r" "N_channels sd = N_channels sc" "fps sd = ex_fps md dpl"
    "D_e sd = 2 * r" "A_flow sd = A_flow sc" "f_fric sd = f" "v_flow sd = v"
    "fuelprops sd ''rho_fuel'' = Some 12500" "reflprops sd ''rho'' = Some 1700"
    by (simp_all add: sd_def with_flow_values_def sc fq)
  have N0: "0 < N_channels sc"
    unfolding sc(8) using k0 r by (intro divide_pos_pos mult_pos_pos) simp_all
  have XS0: "0 < XS_A_cond sc"
    unfolding sc(12) using k0 r by (intro divide_pos_pos mult_pos_pos) simp_all
  have h0: "0 < h_bar sd" unfolding sd(4) using nu r by simp
  from get_q_per_channel_returns [of sd 51] obtain s1 where q: "get_q_per_channel sd = Inr s1"
    using sd XS0 sc(13) h0 r k0 N0 by auto
  from get_q_per_channel_Inr [OF q] obtain a b c' where
    s1: "s1 = sd\<lparr>R_cond := a, R_conv := b, gen_Q := c'\<rparr>" by blast
  have cq: "compute_Q_from_guess (ex_state r md dpl) (1 / 2)
      = Inr ((gen_Q s1 - Q_therm s1)\<^sup>2, s1)"
    unfolding compute_Q_from_guess_def Let_def ex_constrain_radius bnd_Inr
      sb_def [symmetric] g ch q ..
  have c1: "characterized s1" using compute_Q_from_guess_Inr [OF cq] by simp
  have de: "2 * D_e s1 \<noteq> 0" using r by (simp add: s1 sd)
  have "f_fric s1 * L_len s1 * rho (fps s1) * v_flow s1 * v_flow s1 / (2 * D_e s1) = d"
    by (simp add: s1 sd d_def fq)
  then have cd: "calc_dp s1 = Inr (s1\<lparr>dp := d\<rparr>)"
    unfolding calc_dp_def py_div_ok [OF de] bnd_Inr by simp
  have n: "N_channels s1 = ex_core_r\<^sup>2 / (2 * r\<^sup>2)"
    using r by (simp add: s1 sd sc)
  show ?thesis
    using cq c1 cd iv(7) iv(8) n A0 f0 k0
    by (intro exI [of _ "(gen_Q s1 - Q_therm s1)\<^sup>2"] exI [of _ s1] exI [of _ d])
      (simp add: s1 sd)
qed





lemma ex_trial_exceeds:
  assumes r: "0 < r" and md: "0 < md" and lam: "5000000 * r * md / 2 < 2300"
    and c: "0 < c" "c\<^sup>2 \<le> 0.00000003 / (r\<^sup>2 * md)"
    and lim: "0 < dpl" "dpl < 4 * (16 / (1 + 0.00021 / c ^ 4)) / (5000000 * r * md / 2)
              * 0.15 * (md / 20) * (md / 20) * (25 / r)"
  shows "\<exists>e s1 s2 n. compute_Q_from_guess (ex_state r md dpl) (1 / 2) = Inr (e, s1)
      \<and> characterized s1 \<and> calc_dp s1 = Inr s2 \<and> dp_limit (fps s2) < dp s2
      \<and> get_dp_constrained_Nchannels s2 = Inr n"
proof -
  from ex_trial [OF r md lam c, of dpl] obtain e s1 d where
    q: "compute_Q_from_guess (ex_state r md dpl) (1 / 2) = Inr (e, s1)"
    and c1: "characterized s1"
    and cd: "calc_dp s1 = Inr (s1\<lparr>dp := d\<rparr>)"
    and dl: "4 * (16 / (1 + 0.00021 / c ^ 4)) / (5000000 * r * md / 2)
              * 0.15 * (md / 20) * (md / 20) * (25 / r) \<le> d"
    and fp: "fps s1 = ex_fps md dpl" and de: "D_e s1 = 2 * r"
    and pos: "0 < A_flow s1" "0 < f_fric s1" "0 < L_len s1"
    by blast
  let ?s2 = "s1\<lparr>dp := d\<rparr>"
  have fq: "dp_limit (fps s1) = dpl" "rho (fps s1) = 100" "m_dot (fps s1) = md"
    by (simp_all add: fp ex_fps_def)
  have x: "dp_limit (fps ?s2) < dp ?s2" using dl lim by (simp add: fq)
  define den where "den = f_fric s1 * L_len s1 * rho (fps s1)"
  define qv where "qv = 2 * D_e s1 * dp_limit (fps s1) / den"
  have den: "0 < den" unfolding den_def using pos by (simp add: fq)
  have "0 < 2 * D_e s1 * dp_limit (fps s1)" using r lim by (simp add: de fq)
  then have qv: "0 < qv" unfolding qv_def using den by (rule divide_pos_pos)
  have d1: "den \<noteq> 0" using den by simp
  have d2: "A_flow s1 * rho (fps s1) * sqrt qv \<noteq> 0" using pos qv by (simp add: fq)
  have sq: "math_sqrt qv = Inr (sqrt qv)" using qv by (simp add: math_sqrt_def)
  have "get_dp_constrained_Nchannels ?s2
      = Inr \<lceil>m_dot (fps s1) / (A_flow s1 * rho (fps s1) * sqrt qv)\<rceil>"
    unfolding get_dp_constrained_Nchannels_def
    by (simp add: den_def [symmetric] py_div_ok [OF d1] qv_def [symmetric] sq
        py_div_ok [OF d2] del: py_div_ok math_sqrt_ok)
  with q c1 cd x show ?thesis by blast
qed



subsection \<open>The pressure loop and the design run\<close>

text \<open>
  C1. The claim: from every characterized state with valid geometry the loop of
  \<open>adjust_dp\<close> terminates, with \<open>dp\<close> within the limit and \<open>N_channels\<close> not below
  its value at entry. What the code does: on a characterized state on which
  \<open>calc_dp\<close> returns, \<open>adjust_dp\<close> returns exactly when that first \<open>dp\<close> is
  within the limit (and then changes nothing but \<open>dp\<close>); when it is above the limit,
  the loop ends only by an exception of \<open>get_dp_constrained_Nchannels\<close> in its first
  iteration, and runs forever otherwise, because \<open>characterize_flow\<close> and \<open>calc_dp\<close>
  do not read the new \<open>N_channels\<close>. The example with a limit of \<open>1e-4\<close> Pa, after
  one trial at fuel fraction one half, is such a state: \<open>adjust_dp\<close> and the whole
  design run never return.
\<close>

theorem adjust_dp_exits_only_within_limit:
  assumes "characterized s" "calc_dp s = Inr s1"
  shows "adjust_dp s =
     (if dp s1 \<le> dp_limit (fps s1) then Some (Inr s1)
      else case get_dp_constrained_Nchannels s1 of
             Inl e \<Rightarrow> Some (Inl e)
           | Inr n \<Rightarrow> None)"
  using assms by (rule adjust_dp_characterized)


theorem adjust_dp_exits_only_within_limit_witness:
  "\<exists>e s1. compute_Q_from_guess (ex_state 0.005 0.1 0.0001) (1 / 2) = Inr (e, s1)
     \<and> characterized s1 \<and> adjust_dp s1 = None
     \<and> oned_flow_modeling \<lparr>trials = [1 / 2], success = True\<rparr> (ex_state 0.005 0.1 0.0001)
         = None"
proof -
  have "\<exists>e s1 s2 n. compute_Q_from_guess (ex_state 0.005 0.1 0.0001) (1 / 2) = Inr (e, s1)
      \<and> characterized s1 \<and> calc_dp s1 = Inr s2 \<and> dp_limit (fps s2) < dp s2
      \<and> get_dp_constrained_Nchannels s2 = Inr n"
    by (rule ex_trial_exceeds [where c = "0.1"])
      (simp_all add: power2_eq_square power_one_over power_divide)
  then obtain e s1 s2 n where
    q: "compute_Q_from_guess (ex_state 0.005 0.1 0.0001) (1 / 2) = Inr (e, s1)"
    and c: "characterized s1" and d: "calc_dp s1 = Inr s2"
    and x: "dp_limit (fps s2) < dp s2" and g: "get_dp_constrained_Nchannels s2 = Inr n"
    by blast
  from adjust_dp_exits_only_within_limit [OF c d] x g have a: "adjust_dp s1 = None" by simp
  have "oned_flow_modeling \<lparr>trials = [1 / 2], success = True\<rparr> (ex_state 0.005 0.1 0.0001)
      = None"
    using q a unfolding oned_flow_modeling_def find_n_channels_def
    by (simp add: calc_n_channels_error_def)
  with q c a show ?thesis by blast
qed






end
